theory Spec2Isabelle
  imports
    Main
    "HOL-Library.Word"
    "HOL-Library.List_Lexorder"
    "HOL-Library.Sublist"
begin

unbundle bit_operations_syntax

section \<open>The OAuth callback handler of \<^verbatim>\<open>oauth-callback.js\<close>\<close>

text \<open>
  The repository is one request handler.  It refuses every method but GET, recomputes the
  HMAC-SHA256 signature of the query string under the client secret, compares it with the
  \<^verbatim>\<open>hmac\<close> parameter, exchanges the authorisation code at the shop's token endpoint and
  answers with a page.  The embedding keeps the handler's order of evaluation.  Every
  \<^verbatim>\<open>throw\<close> of the platform library is a value \<open>Inl\<close> of a sum.  What the handler
  reads and writes outside its arguments is a record that it takes and returns: the
  environment it reads the credentials from, the console it writes to, and the requests
  it has sent.  The token endpoint is a function from the request sent to what came back.
\<close>

subsection \<open>JavaScript strings\<close>

text \<open>
  A JavaScript string is a sequence of UTF-16 code units, and that is what the handler's
  operations see: \<^verbatim>\<open>!==\<close> and \<^verbatim>\<open>sort()\<close> compare code units, the hexadecimal decoder
  reads code units, and the hash is taken over the UTF-8 encoding of the code units.
  \<open>js\<close> writes an ASCII literal as such a string.
\<close>

type_synonym byte = "8 word"
type_synonym unit16 = "16 word"
type_synonym jstring = "unit16 list"

definition js :: "string \<Rightarrow> jstring" where
  "js s = map (\<lambda>c. word_of_nat (of_char c)) s"

text \<open>
  The UTF-8 encoding that Node gives a string handed to \<^verbatim>\<open>createHmac\<close> or to
  \<^verbatim>\<open>update\<close>: a surrogate pair is one code point of four bytes, a surrogate without its
  partner is replaced by U+FFFD.
\<close>

definition is_high :: "unit16 \<Rightarrow> bool" where
  "is_high u = (0xD800 \<le> u \<and> u \<le> 0xDBFF)"

definition is_low :: "unit16 \<Rightarrow> bool" where
  "is_low u = (0xDC00 \<le> u \<and> u \<le> 0xDFFF)"

definition utf8_point :: "nat \<Rightarrow> byte list" where
  "utf8_point n =
     (if n < 0x80 then [word_of_nat n]
      else if n < 0x800 then
        [word_of_nat (0xC0 + n div 64), word_of_nat (0x80 + n mod 64)]
      else if n < 0x10000 then
        [word_of_nat (0xE0 + n div 4096), word_of_nat (0x80 + n div 64 mod 64),
         word_of_nat (0x80 + n mod 64)]
      else
        [word_of_nat (0xF0 + n div 262144), word_of_nat (0x80 + n div 4096 mod 64),
         word_of_nat (0x80 + n div 64 mod 64), word_of_nat (0x80 + n mod 64)])"

fun utf8 :: "jstring \<Rightarrow> byte list" where
  "utf8 [] = []"
| "utf8 [u] = (if is_high u \<or> is_low u then utf8_point 0xFFFD else utf8_point (unat u))"
| "utf8 (u # v # rest) =
     (if is_high u \<and> is_low v then
        utf8_point (0x10000 + (unat u - 0xD800) * 1024 + (unat v - 0xDC00)) @ utf8 rest
      else if is_high u \<or> is_low u then utf8_point 0xFFFD @ utf8 (v # rest)
      else utf8_point (unat u) @ utf8 (v # rest))"

subsection \<open>Platform library: SHA-256 and HMAC (FIPS 180-4, RFC 2104)\<close>

text \<open>
  \<^verbatim>\<open>crypto.createHmac('sha256', key).update(message).digest('hex')\<close> is Node's; it is
  modelled by the algorithm it implements, on 32-bit words and bytes.
\<close>

type_synonym w32 = "32 word"

definition rotr :: "nat \<Rightarrow> w32 \<Rightarrow> w32" where
  "rotr n x = drop_bit n x OR push_bit (32 - n) x"

definition Ch :: "w32 \<Rightarrow> w32 \<Rightarrow> w32 \<Rightarrow> w32" where
  "Ch x y z = (x AND y) XOR (NOT x AND z)"

definition Maj :: "w32 \<Rightarrow> w32 \<Rightarrow> w32 \<Rightarrow> w32" where
  "Maj x y z = (x AND y) XOR (x AND z) XOR (y AND z)"

definition Sigma0 :: "w32 \<Rightarrow> w32" where
  "Sigma0 x = rotr 2 x XOR rotr 13 x XOR rotr 22 x"

definition Sigma1 :: "w32 \<Rightarrow> w32" where
  "Sigma1 x = rotr 6 x XOR rotr 11 x XOR rotr 25 x"

definition sigma0 :: "w32 \<Rightarrow> w32" where
  "sigma0 x = rotr 7 x XOR rotr 18 x XOR drop_bit 3 x"

definition sigma1 :: "w32 \<Rightarrow> w32" where
  "sigma1 x = rotr 17 x XOR rotr 19 x XOR drop_bit 10 x"

definition K256 :: "w32 list" where
  "K256 =
     [0x428A2F98, 0x71374491, 0xB5C0FBCF, 0xE9B5DBA5,
      0x3956C25B, 0x59F111F1, 0x923F82A4, 0xAB1C5ED5,
      0xD807AA98, 0x12835B01, 0x243185BE, 0x550C7DC3,
      0x72BE5D74, 0x80DEB1FE, 0x9BDC06A7, 0xC19BF174,
      0xE49B69C1, 0xEFBE4786, 0x0FC19DC6, 0x240CA1CC,
      0x2DE92C6F, 0x4A7484AA, 0x5CB0A9DC, 0x76F988DA,
      0x983E5152, 0xA831C66D, 0xB00327C8, 0xBF597FC7,
      0xC6E00BF3, 0xD5A79147, 0x06CA6351, 0x14292967,
      0x27B70A85, 0x2E1B2138, 0x4D2C6DFC, 0x53380D13,
      0x650A7354, 0x766A0ABB, 0x81C2C92E, 0x92722C85,
      0xA2BFE8A1, 0xA81A664B, 0xC24B8B70, 0xC76C51A3,
      0xD192E819, 0xD6990624, 0xF40E3585, 0x106AA070,
      0x19A4C116, 0x1E376C08, 0x2748774C, 0x34B0BCB5,
      0x391C0CB3, 0x4ED8AA4A, 0x5B9CCA4F, 0x682E6FF3,
      0x748F82EE, 0x78A5636F, 0x84C87814, 0x8CC70208,
      0x90BEFFFA, 0xA4506CEB, 0xBEF9A3F7, 0xC67178F2]"

type_synonym hstate = "w32 \<times> w32 \<times> w32 \<times> w32 \<times> w32 \<times> w32 \<times> w32 \<times> w32"

definition H256 :: hstate where
  "H256 = (0x6A09E667, 0xBB67AE85, 0x3C6EF372, 0xA54FF53A,
           0x510E527F, 0x9B05688C, 0x1F83D9AB, 0x5BE0CD19)"

text \<open>
  The message schedule as a sliding window of sixteen words: each step emits the oldest
  word and appends the next one.
\<close>

fun schedule :: "nat \<Rightarrow> w32 list \<Rightarrow> w32 list" where
  "schedule 0 ws = []"
| "schedule (Suc n) ws =
     (case ws of
        [] \<Rightarrow> []
      | w # rest \<Rightarrow>
          w # schedule n (rest @ [sigma1 (ws ! 14) + ws ! 9 + sigma0 (ws ! 1) + w]))"

fun round256 :: "hstate \<Rightarrow> w32 \<times> w32 \<Rightarrow> hstate" where
  "round256 (a, b, c, d, e, f, g, h) (k, w) =
     (let T1 = h + Sigma1 e + Ch e f g + k + w;
          T2 = Sigma0 a + Maj a b c
      in (T1 + T2, a, b, c, d + T1, e, f, g))"

fun add_state :: "hstate \<Rightarrow> hstate \<Rightarrow> hstate" where
  "add_state (a, b, c, d, e, f, g, h) (a', b', c', d', e', f', g', h') =
     (a + a', b + b', c + c', d + d', e + e', f + f', g + g', h + h')"

definition compress :: "hstate \<Rightarrow> w32 list \<Rightarrow> hstate" where
  "compress H block = add_state H (foldl round256 H (zip K256 (schedule 64 block)))"

fun be_words :: "byte list \<Rightarrow> w32 list" where
  "be_words (a # b # c # d # rest) =
     (push_bit 24 (ucast a) OR push_bit 16 (ucast b) OR push_bit 8 (ucast c) OR ucast d)
       # be_words rest"
| "be_words _ = []"

fun chunks :: "nat \<Rightarrow> byte list \<Rightarrow> byte list list" where
  "chunks 0 xs = []"
| "chunks (Suc n) xs = take 64 xs # chunks n (drop 64 xs)"

definition be_bytes32 :: "w32 \<Rightarrow> byte list" where
  "be_bytes32 w = [ucast (drop_bit 24 w), ucast (drop_bit 16 w), ucast (drop_bit 8 w), ucast w]"

definition be_bytes64 :: "64 word \<Rightarrow> byte list" where
  "be_bytes64 w = map (\<lambda>i. ucast (drop_bit (8 * i) w)) [7, 6, 5, 4, 3, 2, 1, 0]"

definition pad :: "byte list \<Rightarrow> byte list" where
  "pad m = m @ [0x80] @ replicate ((119 - length m mod 64) mod 64) 0
             @ be_bytes64 (word_of_nat (8 * length m))"

fun state_bytes :: "hstate \<Rightarrow> byte list" where
  "state_bytes (a, b, c, d, e, f, g, h) = concat (map be_bytes32 [a, b, c, d, e, f, g, h])"

definition sha256 :: "byte list \<Rightarrow> byte list" where
  "sha256 m =
     (let p = pad m
      in state_bytes (foldl compress H256 (map be_words (chunks (length p div 64) p))))"

definition hmac_sha256 :: "byte list \<Rightarrow> byte list \<Rightarrow> byte list" where
  "hmac_sha256 key m =
     (let k0 = (if length key > 64 then sha256 key else key);
          k = k0 @ replicate (64 - length k0) 0
      in sha256 (map (\<lambda>b. b XOR 0x5C) k @ sha256 (map (\<lambda>b. b XOR 0x36) k @ m)))"

subsection \<open>Platform library: hexadecimal buffers, constant-time comparison, errors\<close>

datatype error_name = TypeError | RangeError | SyntaxError | Error

datatype js_error = Thrown error_name jstring

fun message_of :: "js_error \<Rightarrow> jstring" where
  "message_of (Thrown n m) = m"

text \<open>\<^verbatim>\<open>digest('hex')\<close>: two lowercase digits for each byte.\<close>

definition hexdigit :: "nat \<Rightarrow> unit16" where
  "hexdigit n = (if n < 10 then word_of_nat (48 + n) else word_of_nat (87 + n))"

definition to_hex :: "byte list \<Rightarrow> jstring" where
  "to_hex bs = concat (map (\<lambda>b. [hexdigit (unat b div 16), hexdigit (unat b mod 16)]) bs)"

text \<open>
  \<^verbatim>\<open>Buffer.from(s, 'hex')\<close>: Node reads the string two code units at a time and looks
  at the low byte of each; it takes digits of either case and stops at the first pair
  that is not two hexadecimal digits; a last single code unit is dropped.  So
  \<^verbatim>\<open>Buffer.from('1ag123', 'hex')\<close> and \<^verbatim>\<open>Buffer.from('1a7', 'hex')\<close> are both the one byte
  \<^verbatim>\<open>1a\<close>, and the code unit U+0131, whose low byte is that of the digit 1, reads as 1.
\<close>

definition unhex :: "unit16 \<Rightarrow> nat option" where
  "unhex u =
     (let n = unat u mod 256
      in if 48 \<le> n \<and> n \<le> 57 then Some (n - 48)
         else if 97 \<le> n \<and> n \<le> 102 then Some (n - 87)
         else if 65 \<le> n \<and> n \<le> 70 then Some (n - 55)
         else None)"

fun from_hex :: "jstring \<Rightarrow> byte list" where
  "from_hex (a # b # rest) =
     (case unhex a of
        None \<Rightarrow> []
      | Some x \<Rightarrow>
          (case unhex b of
             None \<Rightarrow> []
           | Some y \<Rightarrow> word_of_nat (16 * x + y) # from_hex rest))"
| "from_hex _ = []"

text \<open>
  \<^verbatim>\<open>crypto.timingSafeEqual(a, b)\<close> throws a \<^verbatim>\<open>RangeError\<close> when the two buffers
  differ in byte length and otherwise tells whether they hold the same bytes.
\<close>

definition timingSafeEqual :: "byte list \<Rightarrow> byte list \<Rightarrow> js_error + bool" where
  "timingSafeEqual a b =
     (if length a \<noteq> length b
      then Inl (Thrown RangeError (js ''Input buffers must have the same byte length''))
      else Inr (a = b))"

text \<open>\<^verbatim>\<open>Array.prototype.join\<close>.\<close>

fun join :: "jstring \<Rightarrow> jstring list \<Rightarrow> jstring" where
  "join sep [] = []"
| "join sep [x] = x"
| "join sep (x # y # ys) = x @ sep @ join sep (y # ys)"

text \<open>A value inside a template literal: \<^verbatim>\<open>undefined\<close> prints as the word.\<close>

fun interpolate :: "jstring option \<Rightarrow> jstring" where
  "interpolate None = js ''undefined''"
| "interpolate (Some s) = s"

text \<open>
  The messages of the faults that Node and V8 raise on the handler's own calls.  Their
  wording is the platform's; each is a fixed text.
\<close>

definition createHmac_key_fault :: js_error where
  \<open>createHmac_key_fault = Thrown TypeError
     (js ''The "key" argument must be of type string or an instance of ArrayBuffer, Buffer, TypedArray, DataView, KeyObject, or CryptoKey. Received undefined'')\<close>

definition Buffer_from_fault :: js_error where
  \<open>Buffer_from_fault = Thrown TypeError
     (js ''The first argument must be of type string or an instance of Buffer, ArrayBuffer, or Array or an Array-like Object. Received undefined'')\<close>

definition destructure_fault :: js_error where
  \<open>destructure_fault = Thrown TypeError
     (js (''Cannot destructure property '' @ [CHR 0x27] @ ''access_token'' @ [CHR 0x27] @ '' of ''
           @ [CHR 0x27] @ ''tokenData'' @ [CHR 0x27] @ '' as it is null.''))\<close>

subsection \<open>Requests, the process, the token endpoint, responses\<close>

text \<open>
  \<^verbatim>\<open>req.query\<close> is an object from parameter names to strings, kept as the list of its
  entries in the order of \<^verbatim>\<open>Object.keys\<close>; a JavaScript object holds a name once.
  The field \<^verbatim>\<open>req.method\<close> is written \<open>method'\<close>.
\<close>

record request =
  method' :: jstring
  query :: "(jstring \<times> jstring) list"

text \<open>\<^verbatim>\<open>process.env\<close> gives a string or \<^verbatim>\<open>undefined\<close>.\<close>

record env =
  SHOPIFY_CLIENT_ID :: "jstring option"
  SHOPIFY_CLIENT_SECRET :: "jstring option"

text \<open>The object given to \<^verbatim>\<open>JSON.stringify\<close>, and the call given to \<^verbatim>\<open>fetch\<close>.\<close>

record token_body =
  client_id :: "jstring option"
  client_secret :: "jstring option"
  code :: "jstring option"

record fetch_request =
  fetch_url :: jstring
  fetch_method :: jstring
  fetch_headers :: "(jstring \<times> jstring) list"
  fetch_body :: token_body

text \<open>
  What \<^verbatim>\<open>fetch\<close> gives back: a rejection (no connection, a bad URL), or a response
  with its \<^verbatim>\<open>ok\<close> flag, its status text and the outcome of \<^verbatim>\<open>.json()\<close>, which is a
  rejection, \<^verbatim>\<open>null\<close>, or a value whose \<^verbatim>\<open>access_token\<close> and \<^verbatim>\<open>scope\<close> properties are
  strings or missing.
\<close>

datatype json_result =
    JsonRejected js_error
  | JsonNull
  | JsonObject "jstring option" "jstring option"

record token_response =
  ok :: bool
  statusText :: jstring
  json :: json_result

datatype fetch_result = FetchRejected js_error | FetchResolved token_response

type_synonym upstream = "fetch_request \<Rightarrow> fetch_result"

text \<open>
  A response is a status, the headers set with \<^verbatim>\<open>setHeader\<close>, and what was handed to
  \<^verbatim>\<open>res.json\<close> or to \<^verbatim>\<open>res.send\<close>.
\<close>

datatype payload = Json "(jstring \<times> jstring) list" | Sent jstring

record response =
  status :: nat
  headers :: "(jstring \<times> jstring) list"
  payload :: payload

text \<open>
  What lies outside an invocation and outlives it: the environment of the process, the
  lines written to its console, and the requests sent to the network.  The source has no
  variable of its own outside the handler.
\<close>

datatype log_entry = ConsoleLog jstring | ConsoleError jstring js_error

record process =
  environment :: env
  console :: "log_entry list"
  network :: "fetch_request list"

subsection \<open>The page templates\<close>

definition success_part1 :: jstring where
  \<open>success_part1 = join [0x0A]
     [js '''',
      js ''            <!DOCTYPE html>'',
      js ''            <html>'',
      js ''            <head>'',
      js ''                <title>Installation Complete - '']\<close>

definition success_part2 :: jstring where
  \<open>success_part2 = join [0x0A]
     [js ''</title>'',
      js ''                <meta charset="UTF-8">'',
      js ''                <style>'',
      js ''                    body { '',
      js ''                        font-family: -apple-system, BlinkMacSystemFont, 'Segoe UI', Roboto, sans-serif;'',
      js ''                        padding: 40px 20px; '',
      js ''                        max-width: 600px; '',
      js ''                        margin: 0 auto;'',
      js ''                        background: #f8f9fa;'',
      js ''                    }'',
      js ''                    .container {'',
      js ''                        background: white;'',
      js ''                        padding: 40px;'',
      js ''                        border-radius: 12px;'',
      js ''                        box-shadow: 0 4px 12px rgba(0,0,0,0.1);'',
      js ''                    }'',
      js ''                    .success { '',
      js ''                        color: #28a745; '',
      js ''                        font-size: 28px; '',
      js ''                        text-align: center;'',
      js ''                        margin-bottom: 30px;'',
      js ''                    }'',
      js ''                    .info { '',
      js ''                        background: #e8f5e8; '',
      js ''                        padding: 20px; '',
      js ''                        border-radius: 8px; '',
      js ''                        margin: 20px 0;'',
      js ''                        border-left: 4px solid #28a745;'',
      js ''                    }'',
      js ''                    .shop-name {'',
      js ''                        font-weight: bold;'',
      js ''                        color: #6f42c1;'',
      js ''                    }'',
      js ''                    .next-steps {'',
      js ''                        background: #fff3cd;'',
      js ''                        border-left: 4px solid #ffc107;'',
      js ''                    }'',
      js ''                    .code {'',
      js ''                        font-family: 'Monaco', 'Menlo', monospace;'',
      js ''                        background: #f1f3f4;'',
      js ''                        padding: 2px 6px;'',
      js ''                        border-radius: 3px;'',
      js ''                        font-size: 14px;'',
      js ''                    }'',
      js ''                </style>'',
      js ''            </head>'',
      js ''            <body>'',
      js ''                <div class="container">'',
      js ''                    <div class="success">'' @ [0x2705] @ js '' Installation Successful!</div>'',
      js ''                    '',
      js ''                    <div class="info">'',
      js ''                        <h3>'' @ [0x2713] @ js '' App Installed Successfully</h3>'',
      js ''                        <p><strong>Store:</strong> <span class="shop-name">'']\<close>

definition success_part3 :: jstring where
  \<open>success_part3 = join [0x0A]
     [js ''</span></p>'',
      js ''                        <p><strong>Permissions Granted:</strong> <span class="code">'']\<close>

definition success_part4 :: jstring where
  \<open>success_part4 = join [0x0A]
     [js ''</span></p>'',
      js ''                        <p><strong>Status:</strong> Ready for API access</p>'',
      js ''                    </div>'',
      js ''                    '',
      js ''                    <div class="info next-steps">'',
      js ''                        <h3>'' @ [0xD83D, 0xDE80] @ js '' Next Steps for Power BI Integration:</h3>'',
      js ''                        <ol>'',
      js ''                            <li>Your app now has <strong>read_all_orders</strong> access</li>'',
      js ''                            <li>Check Shopify Admin '' @ [0x2192] @ js '' Settings '' @ [0x2192] @ js '' Apps to confirm installation</li>'',
      js ''                            <li>Use your Partner app credentials in Power Query</li>'',
      js ''                            <li>Access historical orders beyond 60 days via Admin API</li>'',
      js ''                        </ol>'',
      js ''                    </div>'',
      js ''                    '',
      js ''                    <p style="text-align: center; margin-top: 30px; color: #666;">'',
      js ''                        You can safely close this window.'',
      js ''                    </p>'',
      js ''                </div>'',
      js ''                '',
      js ''                <script>'',
      js ''                    // Auto-close after showing success for a few seconds'',
      js ''                    setTimeout(() => {'',
      js ''                        if (window.opener) {'',
      js ''                            window.close();'',
      js ''                        }'',
      js ''                    }, 5000);'',
      js ''                </script>'',
      js ''            </body>'',
      js ''            </html>'',
      js ''        '']\<close>

definition error_part1 :: jstring where
  \<open>error_part1 = join [0x0A]
     [js '''',
      js ''            <!DOCTYPE html>'',
      js ''            <html>'',
      js ''            <head>'',
      js ''                <title>Installation Failed</title>'',
      js ''                <style>'',
      js ''                    body { font-family: Arial, sans-serif; padding: 40px; text-align: center; }'',
      js ''                    .error { color: #dc3545; font-size: 24px; margin-bottom: 20px; }'',
      js ''                </style>'',
      js ''            </head>'',
      js ''            <body>'',
      js ''                <div class="error">'' @ [0x274C] @ js '' Installation Failed</div>'',
      js ''                <p>Error: '']\<close>

definition error_part2 :: jstring where
  \<open>error_part2 = join [0x0A]
     [js ''</p>'',
      js ''                <p>Please try installing the app again from your Partner Dashboard.</p>'',
      js ''            </body>'',
      js ''            </html>'',
      js ''        '']\<close>

definition successHTML :: "jstring option \<Rightarrow> jstring option \<Rightarrow> jstring" where
  "successHTML shop scope =
     success_part1 @ interpolate shop @ success_part2 @ interpolate shop
       @ success_part3 @ interpolate scope @ success_part4"

definition errorHTML :: "jstring \<Rightarrow> jstring" where
  "errorHTML error_message = error_part1 @ error_message @ error_part2"

subsection \<open>The handler\<close>

text \<open>
  The canonical message: \<^verbatim>\<open>Object.keys(req.query)\<close>, without \<^verbatim>\<open>signature\<close> and
  \<^verbatim>\<open>hmac\<close>, sorted (the default sort compares the names code unit by code unit, which
  is the order of \<^typ>\<open>jstring\<close>), each rendered \<^verbatim>\<open>key=value\<close>, joined by \<^verbatim>\<open>&\<close>.
\<close>

definition message :: "(jstring \<times> jstring) list \<Rightarrow> jstring" where
  "message q =
     join (js ''&'')
       (map (\<lambda>key. key @ js ''='' @ interpolate (map_of q key))
          (sort (filter (\<lambda>key. key \<noteq> js ''signature'' \<and> key \<noteq> js ''hmac'') (map fst q))))"

definition calculatedHmac :: "jstring \<Rightarrow> jstring \<Rightarrow> jstring" where
  "calculatedHmac CLIENT_SECRET msg = to_hex (hmac_sha256 (utf8 CLIENT_SECRET) (utf8 msg))"

text \<open>
  The signature check, in the order the handler evaluates it: \<^verbatim>\<open>createHmac\<close> throws on
  a missing secret, \<^verbatim>\<open>Buffer.from\<close> throws on a missing \<^verbatim>\<open>hmac\<close>, and
  \<^verbatim>\<open>timingSafeEqual\<close> throws or answers.
\<close>

definition isValid :: "env \<Rightarrow> request \<Rightarrow> js_error + bool" where
  "isValid e req =
     (case SHOPIFY_CLIENT_SECRET e of
        None \<Rightarrow> Inl createHmac_key_fault
      | Some CLIENT_SECRET \<Rightarrow>
          (case map_of (query req) (js ''hmac'') of
             None \<Rightarrow> Inl Buffer_from_fault
           | Some hmac \<Rightarrow>
               timingSafeEqual (from_hex hmac)
                 (from_hex (calculatedHmac CLIENT_SECRET (message (query req))))))"

definition token_request :: "env \<Rightarrow> request \<Rightarrow> fetch_request" where
  "token_request e req =
     \<lparr>fetch_url = js ''https://'' @ interpolate (map_of (query req) (js ''shop''))
                    @ js ''/admin/oauth/access_token'',
      fetch_method = js ''POST'',
      fetch_headers = [(js ''Content-Type'', js ''application/json'')],
      fetch_body = \<lparr>client_id = SHOPIFY_CLIENT_ID e,
                    client_secret = SHOPIFY_CLIENT_SECRET e,
                    code = map_of (query req) (js ''code'')\<rparr>\<rparr>"

text \<open>
  The body of the \<^verbatim>\<open>try\<close> block either sends a response (the 401 it returns early,
  or the success page at its end) or throws an error for the \<^verbatim>\<open>catch\<close> clause.  It
  reads the environment of the process, records the request it sends, and writes the
  success line to the console.
\<close>

definition try_block :: "upstream \<Rightarrow> request \<Rightarrow> process \<Rightarrow> (js_error + response) \<times> process" where
  "try_block fetch req p =
     (case isValid (environment p) req of
        Inl error \<Rightarrow> (Inl error, p)
      | Inr False \<Rightarrow>
          (Inr \<lparr>status = 401, headers = [],
                payload = Json [(js ''error'', js ''Invalid HMAC'')]\<rparr>, p)
      | Inr True \<Rightarrow>
          (let shop = map_of (query req) (js ''shop'');
               call = token_request (environment p) req;
               p1 = p\<lparr>network := network p @ [call]\<rparr>
           in case fetch call of
                FetchRejected error \<Rightarrow> (Inl error, p1)
              | FetchResolved tokenResponse \<Rightarrow>
                  if \<not> ok tokenResponse
                  then (Inl (Thrown Error
                               (js ''Token exchange failed: '' @ statusText tokenResponse)), p1)
                  else (case json tokenResponse of
                          JsonRejected error \<Rightarrow> (Inl error, p1)
                        | JsonNull \<Rightarrow> (Inl destructure_fault, p1)
                        | JsonObject access_token scope \<Rightarrow>
                            (Inr \<lparr>status = 200,
                                  headers = [(js ''Content-Type'', js ''text/html'')],
                                  payload = Sent (successHTML shop scope)\<rparr>,
                             p1\<lparr>console := console p1
                                   @ [ConsoleLog (js ''App installed for '' @ interpolate shop
                                                    @ js '' with scopes: '' @ interpolate scope)]\<rparr>))))"

definition handler :: "upstream \<Rightarrow> request \<Rightarrow> process \<Rightarrow> response \<times> process" where
  "handler fetch req p =
     (if method' req \<noteq> js ''GET'' then
        (\<lparr>status = 405, headers = [],
          payload = Json [(js ''error'', js ''Method not allowed'')]\<rparr>, p)
      else
        (case try_block fetch req p of
           (Inr sent, p') \<Rightarrow> (sent, p')
         | (Inl error, p') \<Rightarrow>
             (\<lparr>status = 500, headers = [(js ''Content-Type'', js ''text/html'')],
               payload = Sent (errorHTML (message_of error))\<rparr>,
              p'\<lparr>console := console p' @ [ConsoleError (js ''OAuth callback error:'') error]\<rparr>)))"

text \<open>
  What one invocation adds to the process: the requests it sent and the lines it wrote.
\<close>

definition calls :: "upstream \<Rightarrow> request \<Rightarrow> process \<Rightarrow> fetch_request list" where
  "calls fetch req p = drop (length (network p)) (network (snd (handler fetch req p)))"

definition logged :: "upstream \<Rightarrow> request \<Rightarrow> process \<Rightarrow> log_entry list" where
  "logged fetch req p = drop (length (console p)) (console (snd (handler fetch req p)))"

text \<open>A process serving requests one after the other, each in the state the last left.\<close>

fun serve :: "upstream \<Rightarrow> request list \<Rightarrow> process \<Rightarrow> response list \<times> process" where
  "serve fetch [] p = ([], p)"
| "serve fetch (req # reqs) p =
     (let (r, p') = handler fetch req p;
          (rs, p'') = serve fetch reqs p'
      in (r # rs, p''))"

text \<open>A process that has served nothing yet.\<close>

definition fresh :: "env \<Rightarrow> process" where
  "fresh e = \<lparr>environment = e, console = [], network = []\<rparr>"

subsection \<open>The specification's vocabulary\<close>

text \<open>
  The canonical message as the specification words it, on the parameters as a finite map:
  every name but \<^verbatim>\<open>hmac\<close> and \<^verbatim>\<open>signature\<close>, in lexicographic order, each as
  \<^verbatim>\<open>name=value\<close>, joined by \<^verbatim>\<open>&\<close>.
\<close>

definition canonical_message :: "(jstring \<rightharpoonup> jstring) \<Rightarrow> jstring" where
  "canonical_message params =
     join (js ''&'')
       (map (\<lambda>name. name @ js ''='' @ (case params name of None \<Rightarrow> [] | Some v \<Rightarrow> v))
          (sorted_list_of_set (dom params - {js ''hmac'', js ''signature''})))"

text \<open>
  The specification's four kinds of failure, read off the handler's exits: the method
  gate, the 401 return, the error thrown on a response that is not \<^verbatim>\<open>ok\<close>, and every
  other error that reaches the \<^verbatim>\<open>catch\<close> clause.  \<open>None\<close> is the successful run.
\<close>

datatype failure = MethodNotAllowed | InvalidSignature | TokenExchangeFailed | UnexpectedFailure

definition failure_of :: "upstream \<Rightarrow> request \<Rightarrow> process \<Rightarrow> failure option" where
  "failure_of fetch req p =
     (if method' req \<noteq> js ''GET'' then Some MethodNotAllowed
      else case isValid (environment p) req of
             Inl error \<Rightarrow> Some UnexpectedFailure
           | Inr False \<Rightarrow> Some InvalidSignature
           | Inr True \<Rightarrow>
               (case fetch (token_request (environment p) req) of
                  FetchRejected error \<Rightarrow> Some UnexpectedFailure
                | FetchResolved tokenResponse \<Rightarrow>
                    if \<not> ok tokenResponse then Some TokenExchangeFailed
                    else (case json tokenResponse of
                            JsonRejected error \<Rightarrow> Some UnexpectedFailure
                          | JsonNull \<Rightarrow> Some UnexpectedFailure
                          | JsonObject access_token scope \<Rightarrow> None)))"

fun status_of :: "failure \<Rightarrow> nat" where
  "status_of MethodNotAllowed = 405"
| "status_of InvalidSignature = 401"
| "status_of TokenExchangeFailed = 500"
| "status_of UnexpectedFailure = 500"

text \<open>The error that the \<^verbatim>\<open>try\<close> block throws to the \<^verbatim>\<open>catch\<close> clause, if it throws.\<close>

definition caught :: "upstream \<Rightarrow> request \<Rightarrow> process \<Rightarrow> js_error option" where
  "caught fetch req p =
     (if method' req \<noteq> js ''GET'' then None
      else case fst (try_block fetch req p) of
             Inl error \<Rightarrow> Some error
           | Inr sent \<Rightarrow> None)"

text \<open>
  A response that carries a rendered page: sent as \<^verbatim>\<open>text/html\<close>, with a document type
  declaration in the text.  What \<^verbatim>\<open>res.json\<close> sends is not one.
\<close>

definition html_document :: "response \<Rightarrow> bool" where
  "html_document r =
     (case payload r of
        Json obj \<Rightarrow> False
      | Sent doc \<Rightarrow> map_of (headers r) (js ''Content-Type'') = Some (js ''text/html'')
                     \<and> sublist (js ''<!DOCTYPE html>'') doc)"

subsection \<open>Example requests\<close>

text \<open>
  Two configurations, the parameters of the specification's example, and the digest the
  platform would send with them.  Evaluating \<open>example_digest\<close> gives
  \<^verbatim>\<open>ccb4d1364aaada51b2a3b78568e38ef53ccafb2552bfbbbf7247260117ee746f\<close>, the HMAC-SHA256 of
  \<^verbatim>\<open>code=xyz&shop=a.myshopify.com&state=abc\<close> under the key \<^verbatim>\<open>shpss_secret\<close>.
\<close>

definition example_env :: env where
  "example_env = \<lparr>SHOPIFY_CLIENT_ID = Some (js ''example-client-id''),
                   SHOPIFY_CLIENT_SECRET = Some (js ''shpss_secret'')\<rparr>"

definition other_env :: env where
  "other_env = \<lparr>SHOPIFY_CLIENT_ID = Some (js ''another-client-id''),
                 SHOPIFY_CLIENT_SECRET = Some (js ''shpss_another'')\<rparr>"

text \<open>The first configuration under another client identifier.\<close>

definition sibling_env :: env where
  "sibling_env = \<lparr>SHOPIFY_CLIENT_ID = Some (js ''another-client-id''),
                   SHOPIFY_CLIENT_SECRET = Some (js ''shpss_secret'')\<rparr>"

definition example_params :: "(jstring \<times> jstring) list" where
  "example_params =
     [(js ''shop'', js ''a.myshopify.com''), (js ''code'', js ''xyz''), (js ''state'', js ''abc'')]"

definition example_digest :: jstring where
  "example_digest =
     calculatedHmac (js ''shpss_secret'') (js ''code=xyz&shop=a.myshopify.com&state=abc'')"

definition other_digest :: jstring where
  "other_digest =
     calculatedHmac (js ''shpss_another'') (js ''code=xyz&shop=a.myshopify.com&state=abc'')"

text \<open>The digest with every byte raised by one: as long as the digest, and wrong.\<close>

definition near_miss_digest :: jstring where
  "near_miss_digest = to_hex (map (\<lambda>b. b + 1) (from_hex example_digest))"



definition script_params :: "(jstring \<times> jstring) list" where
  "script_params = [(js ''code'', js ''xyz''), (js ''shop'', js ''<script>alert(1)</script>'')]"

text \<open>A GET request with the given parameters and the given \<^verbatim>\<open>hmac\<close>.\<close>

definition get_request :: "(jstring \<times> jstring) list \<Rightarrow> jstring \<Rightarrow> request" where
  "get_request params supplied =
     \<lparr>method' = js ''GET'', query = params @ [(js ''hmac'', supplied)]\<rparr>"

definition post_request :: request where
  "post_request =
     \<lparr>method' = js ''POST'', query = example_params @ [(js ''hmac'', example_digest)]\<rparr>"

definition unsigned_request :: request where
  "unsigned_request = \<lparr>method' = js ''GET'', query = example_params\<rparr>"

text \<open>A process that has written to its console and sent a request before.\<close>

definition used_process :: process where
  "used_process =
     \<lparr>environment = example_env,
      console = [ConsoleLog (js ''App installed for b.myshopify.com with scopes: read_orders'')],
      network = [token_request example_env unsigned_request]\<rparr>"

text \<open>
  Token endpoints: one that grants, one that refuses with a status text, one that refuses
  and repeats the secret it was sent in its status text, one that grants a scope with
  markup in it, and one that cannot be reached.
\<close>

definition upstream_ok :: upstream where
  "upstream_ok call =
     FetchResolved \<lparr>ok = True, statusText = js ''OK'',
                    json = JsonObject (Some (js ''tok'')) (Some (js ''read_orders''))\<rparr>"

definition upstream_refuses :: "jstring \<Rightarrow> upstream" where
  "upstream_refuses reason call =
     FetchResolved \<lparr>ok = False, statusText = reason, json = JsonNull\<rparr>"


definition upstream_markup :: upstream where
  "upstream_markup call =
     FetchResolved \<lparr>ok = True, statusText = js ''OK'',
                    json = JsonObject (Some (js ''tok'')) (Some (js ''<b>read_orders</b>''))\<rparr>"

definition upstream_down :: upstream where
  "upstream_down call = FetchRejected (Thrown TypeError (js ''fetch failed''))"

text \<open>An endpoint that grants at the example shop's address and cannot be reached elsewhere.\<close>

definition upstream_partial :: upstream where
  "upstream_partial call =
     (if fetch_url call = js ''https://a.myshopify.com/admin/oauth/access_token''
      then upstream_ok call else upstream_down call)"

section \<open>Facts about the platform library\<close>

lemma length_js [simp]: "length (js s) = length s"
  by (simp add: js_def)

lemma js_append: "js (s @ t) = js s @ js t"
  by (simp add: js_def)

lemma js_Nil [simp]: "js [] = []"
  by (simp add: js_def)

lemma js_is_Nil [simp]: "js s = [] \<longleftrightarrow> s = []"
  by (simp add: js_def)

lemma unit_of_char_inject:
  "(word_of_nat (of_char c) :: unit16) = word_of_nat (of_char d) \<longleftrightarrow> c = d"
proof -
  have small: "(of_char x :: nat) < 2 ^ 16" for x
  proof -
    have "(of_char x :: nat) < 256"
      by simp
    also have "(256 :: nat) < 2 ^ 16"
      by simp
    finally show ?thesis .
  qed
  have "take_bit 16 (of_char c :: nat) = of_char c" "take_bit 16 (of_char d :: nat) = of_char d"
    using small by (simp_all only: take_bit_nat_eq_self_iff)
  then show ?thesis
    by (simp add: word_of_nat_eq_iff)
qed

lemma js_eq_iff [simp]: "js s = js t \<longleftrightarrow> s = t"
proof (induction s arbitrary: t)
  case Nil
  then show ?case
    by (cases t) (simp_all add: js_def)
next
  case (Cons c s)
  then show ?case
    by (cases t) (auto simp: js_def unit_of_char_inject)
qed

lemma unat_hexdigit: "n < 16 \<Longrightarrow> unat (hexdigit n) = (if n < 10 then 48 + n else 87 + n)"
proof -
  assume n: "n < 16"
  have "unat (word_of_nat m :: unit16) = m" if "m < 65536" for m
  proof -
    have "unat (word_of_nat m :: unit16) = m mod 2 ^ LENGTH(16)"
      by (rule unat_of_nat)
    with that show ?thesis
      by simp
  qed
  from this [of "48 + n"] this [of "87 + n"] n show ?thesis
    by (simp add: hexdigit_def del: of_nat_add)
qed

lemma unhex_hexdigit: "n < 16 \<Longrightarrow> unhex (hexdigit n) = Some n"
  by (auto simp: unhex_def Let_def unat_hexdigit)

lemma nibbles_bounded: "unat (b :: byte) div 16 < 16" "unat b mod 16 < 16"
proof -
  have "unat b < 2 ^ LENGTH(8)"
    by (rule unsigned_less)
  then show "unat b div 16 < 16"
    by simp
  show "unat b mod 16 < 16"
    by simp
qed

lemma byte_of_nibbles: "word_of_nat (16 * (unat b div 16) + unat b mod 16) = (b :: byte)"
  by simp

text \<open>Decoding reads back what encoding wrote, and goes on with what follows it.\<close>

lemma from_hex_to_hex_append: "from_hex (to_hex bs @ rest) = bs @ from_hex rest"
proof (induction bs)
  case Nil
  then show ?case
    by (simp add: to_hex_def)
next
  case (Cons b bs)
  have "to_hex (b # bs) @ rest
          = hexdigit (unat b div 16) # hexdigit (unat b mod 16) # (to_hex bs @ rest)"
    by (simp add: to_hex_def)
  then show ?case
    using Cons.IH
    by (simp add: unhex_hexdigit nibbles_bounded byte_of_nibbles del: of_nat_add of_nat_mult)
qed

lemma from_hex_to_hex: "from_hex (to_hex bs) = bs"
  using from_hex_to_hex_append [of bs "[]"] by simp

lemma length_to_hex: "length (to_hex bs) = 2 * length bs"
  by (induction bs) (simp_all add: to_hex_def)

lemma length_state_bytes: "length (state_bytes s) = 32"
  by (cases s rule: state_bytes.cases) (simp add: be_bytes32_def)

lemma length_sha256: "length (sha256 m) = 32"
  by (simp add: sha256_def Let_def length_state_bytes)

lemma length_hmac_sha256: "length (hmac_sha256 key m) = 32"
  by (simp add: hmac_sha256_def Let_def length_sha256)

text \<open>The model of the hash on the one-block example of FIPS 180-4.\<close>

lemma sha256_abc:
  "to_hex (sha256 (utf8 (js ''abc'')))
     = js ''ba7816bf8f01cfea414140de5dae2223b00361a396177a9cb410ff61f20015ad''"
  by code_simp

lemma from_hex_calculatedHmac:
  "from_hex (calculatedHmac secret msg) = hmac_sha256 (utf8 secret) (utf8 msg)"
  by (simp add: calculatedHmac_def from_hex_to_hex)

lemma length_calculatedHmac: "length (calculatedHmac secret msg) = 64"
  by (simp add: calculatedHmac_def length_to_hex length_hmac_sha256)

section \<open>The ways through the handler\<close>

lemma handler_not_GET:
  "method' req \<noteq> js ''GET'' \<Longrightarrow>
   handler fetch req p =
     (\<lparr>status = 405, headers = [], payload = Json [(js ''error'', js ''Method not allowed'')]\<rparr>,
      p)"
  by (simp add: handler_def)

lemma handler_fault:
  "method' req = js ''GET'' \<Longrightarrow> isValid (environment p) req = Inl error \<Longrightarrow>
   handler fetch req p =
     (\<lparr>status = 500, headers = [(js ''Content-Type'', js ''text/html'')],
       payload = Sent (errorHTML (message_of error))\<rparr>,
      \<lparr>environment = environment p,
       console = console p @ [ConsoleError (js ''OAuth callback error:'') error],
       network = network p\<rparr>)"
  by (simp add: handler_def try_block_def Let_def)

lemma handler_invalid:
  "method' req = js ''GET'' \<Longrightarrow> isValid (environment p) req = Inr False \<Longrightarrow>
   handler fetch req p =
     (\<lparr>status = 401, headers = [], payload = Json [(js ''error'', js ''Invalid HMAC'')]\<rparr>, p)"
  by (simp add: handler_def try_block_def Let_def)

lemma handler_fetch_rejected:
  "method' req = js ''GET'' \<Longrightarrow> isValid (environment p) req = Inr True \<Longrightarrow>
   fetch (token_request (environment p) req) = FetchRejected error \<Longrightarrow>
   handler fetch req p =
     (\<lparr>status = 500, headers = [(js ''Content-Type'', js ''text/html'')],
       payload = Sent (errorHTML (message_of error))\<rparr>,
      \<lparr>environment = environment p,
       console = console p @ [ConsoleError (js ''OAuth callback error:'') error],
       network = network p @ [token_request (environment p) req]\<rparr>)"
  by (simp add: handler_def try_block_def Let_def)

lemma handler_not_ok:
  "method' req = js ''GET'' \<Longrightarrow> isValid (environment p) req = Inr True \<Longrightarrow>
   fetch (token_request (environment p) req) = FetchResolved tokenResponse \<Longrightarrow>
   \<not> ok tokenResponse \<Longrightarrow>
   handler fetch req p =
     (\<lparr>status = 500, headers = [(js ''Content-Type'', js ''text/html'')],
       payload = Sent (errorHTML (js ''Token exchange failed: '' @ statusText tokenResponse))\<rparr>,
      \<lparr>environment = environment p,
       console = console p
         @ [ConsoleError (js ''OAuth callback error:'')
              (Thrown Error (js ''Token exchange failed: '' @ statusText tokenResponse))],
       network = network p @ [token_request (environment p) req]\<rparr>)"
  by (simp add: handler_def try_block_def Let_def)

lemma handler_json_rejected:
  "method' req = js ''GET'' \<Longrightarrow> isValid (environment p) req = Inr True \<Longrightarrow>
   fetch (token_request (environment p) req) = FetchResolved tokenResponse \<Longrightarrow>
   ok tokenResponse \<Longrightarrow> json tokenResponse = JsonRejected error \<Longrightarrow>
   handler fetch req p =
     (\<lparr>status = 500, headers = [(js ''Content-Type'', js ''text/html'')],
       payload = Sent (errorHTML (message_of error))\<rparr>,
      \<lparr>environment = environment p,
       console = console p @ [ConsoleError (js ''OAuth callback error:'') error],
       network = network p @ [token_request (environment p) req]\<rparr>)"
  by (simp add: handler_def try_block_def Let_def)

lemma handler_json_null:
  "method' req = js ''GET'' \<Longrightarrow> isValid (environment p) req = Inr True \<Longrightarrow>
   fetch (token_request (environment p) req) = FetchResolved tokenResponse \<Longrightarrow>
   ok tokenResponse \<Longrightarrow> json tokenResponse = JsonNull \<Longrightarrow>
   handler fetch req p =
     (\<lparr>status = 500, headers = [(js ''Content-Type'', js ''text/html'')],
       payload = Sent (errorHTML (message_of destructure_fault))\<rparr>,
      \<lparr>environment = environment p,
       console = console p @ [ConsoleError (js ''OAuth callback error:'') destructure_fault],
       network = network p @ [token_request (environment p) req]\<rparr>)"
  by (simp add: handler_def try_block_def Let_def)

lemma handler_installed:
  "method' req = js ''GET'' \<Longrightarrow> isValid (environment p) req = Inr True \<Longrightarrow>
   fetch (token_request (environment p) req) = FetchResolved tokenResponse \<Longrightarrow>
   ok tokenResponse \<Longrightarrow> json tokenResponse = JsonObject access_token scope \<Longrightarrow>
   handler fetch req p =
     (\<lparr>status = 200, headers = [(js ''Content-Type'', js ''text/html'')],
       payload = Sent (successHTML (map_of (query req) (js ''shop'')) scope)\<rparr>,
      \<lparr>environment = environment p,
       console = console p
         @ [ConsoleLog (js ''App installed for '' @ interpolate (map_of (query req) (js ''shop''))
                          @ js '' with scopes: '' @ interpolate scope)],
       network = network p @ [token_request (environment p) req]\<rparr>)"
  by (simp add: handler_def try_block_def Let_def)

lemmas handler_cases =
  handler_not_GET handler_fault handler_invalid handler_fetch_rejected handler_not_ok
  handler_json_rejected handler_json_null handler_installed

text \<open>Every run takes one of these eight ways.\<close>

lemma handler_paths:
  obtains
    (not_GET) "method' req \<noteq> js ''GET''"
  | (fault) error where "method' req = js ''GET''" "isValid e req = Inl error"
  | (invalid) "method' req = js ''GET''" "isValid e req = Inr False"
  | (fetch_rejected) error where "method' req = js ''GET''" "isValid e req = Inr True"
      "fetch (token_request e req) = FetchRejected error"
  | (not_ok) tokenResponse where "method' req = js ''GET''" "isValid e req = Inr True"
      "fetch (token_request e req) = FetchResolved tokenResponse" "\<not> ok tokenResponse"
  | (json_rejected) tokenResponse error where "method' req = js ''GET''"
      "isValid e req = Inr True"
      "fetch (token_request e req) = FetchResolved tokenResponse" "ok tokenResponse"
      "json tokenResponse = JsonRejected error"
  | (json_null) tokenResponse where "method' req = js ''GET''" "isValid e req = Inr True"
      "fetch (token_request e req) = FetchResolved tokenResponse" "ok tokenResponse"
      "json tokenResponse = JsonNull"
  | (installed) tokenResponse access_token scope where "method' req = js ''GET''"
      "isValid e req = Inr True"
      "fetch (token_request e req) = FetchResolved tokenResponse" "ok tokenResponse"
      "json tokenResponse = JsonObject access_token scope"
proof (cases "method' req = js ''GET''")
  case False
  then show ?thesis
    by (rule not_GET)
next
  case get: True
  show ?thesis
  proof (cases "isValid e req")
    case (Inl error)
    with get show ?thesis
      by (rule fault)
  next
    case (Inr v)
    show ?thesis
    proof (cases v)
      case False
      with get Inr show ?thesis
        by (auto intro: invalid)
    next
      case True
      with Inr have valid: "isValid e req = Inr True"
        by simp
      show ?thesis
      proof (cases "fetch (token_request e req)")
        case (FetchRejected error)
        with get valid show ?thesis
          by (rule fetch_rejected)
      next
        case (FetchResolved tokenResponse)
        show ?thesis
        proof (cases "ok tokenResponse")
          case False
          with get valid FetchResolved show ?thesis
            by (rule not_ok)
        next
          case True
          with get valid FetchResolved show ?thesis
            by (cases "json tokenResponse") (auto intro: json_rejected json_null installed)
        qed
      qed
    qed
  qed
qed

text \<open>
  What the signature check decides.  Both buffers come out of \<open>from_hex\<close>; the digest's
  is its 32 bytes, so the check compares the decoded \<^verbatim>\<open>hmac\<close> with the digest and throws
  when the decoded \<^verbatim>\<open>hmac\<close> is not 32 bytes long.
\<close>

lemma isValid_True_iff:
  "isValid e req = Inr True \<longleftrightarrow>
     (\<exists>secret hmac. SHOPIFY_CLIENT_SECRET e = Some secret
        \<and> map_of (query req) (js ''hmac'') = Some hmac
        \<and> from_hex hmac = hmac_sha256 (utf8 secret) (utf8 (message (query req))))"
  by (auto simp: isValid_def timingSafeEqual_def from_hex_calculatedHmac length_hmac_sha256
           split: option.splits)

lemma isValid_False_iff:
  "isValid e req = Inr False \<longleftrightarrow>
     (\<exists>secret hmac. SHOPIFY_CLIENT_SECRET e = Some secret
        \<and> map_of (query req) (js ''hmac'') = Some hmac
        \<and> length (from_hex hmac) = 32
        \<and> from_hex hmac \<noteq> hmac_sha256 (utf8 secret) (utf8 (message (query req))))"
  by (auto simp: isValid_def timingSafeEqual_def from_hex_calculatedHmac length_hmac_sha256
           split: option.splits)

lemma isValid_no_hmac:
  "map_of (query req) (js ''hmac'') = None \<Longrightarrow> \<exists>error. isValid e req = Inl error"
  by (simp add: isValid_def split: option.splits)

lemma isValid_wrong_length:
  "map_of (query req) (js ''hmac'') = Some hmac \<Longrightarrow> length (from_hex hmac) \<noteq> 32 \<Longrightarrow>
   \<exists>error. isValid e req = Inl error"
  by (simp add: isValid_def timingSafeEqual_def from_hex_calculatedHmac length_hmac_sha256
           split: option.splits)

text \<open>What an invocation adds to the network and to the console.\<close>

lemma calls_handler:
  "calls fetch req p
     = (if method' req = js ''GET'' \<and> isValid (environment p) req = Inr True
        then [token_request (environment p) req] else [])"
  by (rule handler_paths [where req = req and e = "environment p" and fetch = fetch])
     (simp_all add: calls_def handler_cases)

lemma network_handler:
  "network (snd (handler fetch req p)) = network p @ calls fetch req p"
  by (rule handler_paths [where req = req and e = "environment p" and fetch = fetch])
     (simp_all add: calls_def handler_cases)

lemma console_handler:
  "console (snd (handler fetch req p)) = console p @ logged fetch req p"
  by (rule handler_paths [where req = req and e = "environment p" and fetch = fetch])
     (simp_all add: logged_def handler_cases)

lemma environment_handler:
  "environment (snd (handler fetch req p)) = environment p"
  by (rule handler_paths [where req = req and e = "environment p" and fetch = fetch])
     (simp_all add: handler_cases)

text \<open>The error that reaches the \<^verbatim>\<open>catch\<close> clause, way by way.\<close>

lemma caught_cases:
  "caught fetch req p =
     (if method' req \<noteq> js ''GET'' then None
      else case isValid (environment p) req of
             Inl error \<Rightarrow> Some error
           | Inr False \<Rightarrow> None
           | Inr True \<Rightarrow>
               (case fetch (token_request (environment p) req) of
                  FetchRejected error \<Rightarrow> Some error
                | FetchResolved tokenResponse \<Rightarrow>
                    if \<not> ok tokenResponse
                    then Some (Thrown Error (js ''Token exchange failed: '' @ statusText tokenResponse))
                    else (case json tokenResponse of
                            JsonRejected error \<Rightarrow> Some error
                          | JsonNull \<Rightarrow> Some destructure_fault
                          | JsonObject access_token scope \<Rightarrow> None)))"
  by (simp add: caught_def try_block_def Let_def
           split: sum.splits bool.splits fetch_result.splits json_result.splits)

section \<open>Facts about the pages\<close>

lemma error_part1_doctype: "sublist (js ''<!DOCTYPE html>'') error_part1"
proof -
  have "error_part1 = take 13 error_part1 @ js ''<!DOCTYPE html>'' @ drop 28 error_part1"
    by (simp add: error_part1_def js_def)
  then show ?thesis
    using sublist_appendI by metis
qed

lemma html_document_error:
  "html_document \<lparr>status = s, headers = [(js ''Content-Type'', js ''text/html'')],
                   payload = Sent (errorHTML error_message)\<rparr>"
proof -
  obtain ps ss where "error_part1 = ps @ js ''<!DOCTYPE html>'' @ ss"
    using error_part1_doctype by (auto simp: sublist_def)
  then have "errorHTML error_message
               = ps @ js ''<!DOCTYPE html>'' @ (ss @ error_message @ error_part2)"
    by (simp add: errorHTML_def)
  then have "sublist (js ''<!DOCTYPE html>'') (errorHTML error_message)"
    using sublist_appendI by metis
  then show ?thesis
    by (simp add: html_document_def)
qed

lemma sublist_errorHTML: "sublist error_message (errorHTML error_message)"
  unfolding errorHTML_def by (rule sublist_appendI)

lemma sublist_errorHTML_suffix: "sublist shown (errorHTML (before @ shown))"
proof -
  have "errorHTML (before @ shown) = (error_part1 @ before) @ shown @ error_part2"
    by (simp add: errorHTML_def)
  then show ?thesis
    using sublist_appendI by metis
qed

text \<open>The two pages differ within their titles, whatever is interpolated.\<close>

lemma errorHTML_not_successHTML: "errorHTML error_message \<noteq> successHTML shop scope"
proof
  assume "errorHTML error_message = successHTML shop scope"
  then have "take 114 (errorHTML error_message) = take 114 (successHTML shop scope)"
    by simp
  moreover have "length success_part1 = 114"
    by (simp add: success_part1_def)
  moreover have "take 114 (errorHTML error_message) = take 114 error_part1"
    by (simp add: errorHTML_def error_part1_def)
  ultimately have "take 114 error_part1 = success_part1"
    by (simp add: successHTML_def)
  then show False
    by (simp add: error_part1_def success_part1_def js_def)
qed

section \<open>Facts about the example requests\<close>

lemma message_example_params:
  "message example_params = js ''code=xyz&shop=a.myshopify.com&state=abc''"
  by (simp add: message_def example_params_def js_def)

text \<open>The \<^verbatim>\<open>hmac\<close> parameter is no part of the message it signs.\<close>

lemma message_get_request: "message (query (get_request params supplied)) = message params"
proof -
  let ?keep = "\<lambda>key. key \<noteq> js ''signature'' \<and> key \<noteq> js ''hmac''"
  let ?q = "params @ [(js ''hmac'', supplied)]"
  have names: "filter ?keep (map fst ?q) = filter ?keep (map fst params)"
    by simp
  have "map_of ?q key = map_of params key"
    if "key \<in> set (sort (filter ?keep (map fst params)))" for key
  proof -
    from that have "key \<in> fst ` set params"
      by auto
    then obtain v where "map_of params key = Some v"
      by (metis domD dom_map_of_conv_image_fst)
    then show ?thesis
      by (simp add: map_add_Some_iff)
  qed
  then have rendered:
    "map (\<lambda>key. key @ js ''='' @ interpolate (map_of ?q key))
         (sort (filter ?keep (map fst params)))
       = map (\<lambda>key. key @ js ''='' @ interpolate (map_of params key))
           (sort (filter ?keep (map fst params)))"
    by (intro map_cong) simp_all
  have "message ?q
          = join (js ''&'') (map (\<lambda>key. key @ js ''='' @ interpolate (map_of ?q key))
                              (sort (filter ?keep (map fst ?q))))"
    by (simp only: message_def)
  also have "\<dots> = join (js ''&'') (map (\<lambda>key. key @ js ''='' @ interpolate (map_of params key))
                                   (sort (filter ?keep (map fst params))))"
    by (simp only: names rendered)
  also have "\<dots> = message params"
    by (simp only: message_def)
  finally show ?thesis
    by (simp add: get_request_def)
qed

lemma hmac_get_request:
  "js ''hmac'' \<notin> fst ` set params \<Longrightarrow>
   map_of (query (get_request params supplied)) (js ''hmac'') = Some supplied"
  by (simp add: get_request_def map_add_Some_iff map_of_eq_None_iff)

lemma shop_get_request:
  "map_of (query (get_request params supplied)) (js ''shop'') = map_of params (js ''shop'')"
  by (cases "map_of params (js ''shop'')")
     (simp_all add: get_request_def map_add_Some_iff map_add_def)

lemma isValid_get_request:
  assumes "js ''hmac'' \<notin> fst ` set params" and "SHOPIFY_CLIENT_SECRET e = Some secret"
  shows "isValid e (get_request params supplied)
           = timingSafeEqual (from_hex supplied)
               (from_hex (calculatedHmac secret (message params)))"
  using assms by (simp add: isValid_def hmac_get_request message_get_request)

lemma isValid_signed:
  assumes "js ''hmac'' \<notin> fst ` set params" and "SHOPIFY_CLIENT_SECRET e = Some secret"
  shows "isValid e (get_request params (calculatedHmac secret (message params))) = Inr True"
  using assms by (simp add: isValid_get_request timingSafeEqual_def)

lemma example_facts:
  "js ''hmac'' \<notin> fst ` set example_params"
  "SHOPIFY_CLIENT_SECRET example_env = Some (js ''shpss_secret'')"
  "SHOPIFY_CLIENT_SECRET other_env = Some (js ''shpss_another'')"
  "method' (get_request params supplied) = js ''GET''"
  "SHOPIFY_CLIENT_SECRET sibling_env = Some (js ''shpss_secret'')"
  "environment (fresh e) = e"
  "environment used_process = example_env"
  by (simp_all add: example_params_def example_env_def other_env_def sibling_env_def
        get_request_def fresh_def used_process_def)

lemma example_digest_eq:
  "calculatedHmac (js ''shpss_secret'') (message example_params) = example_digest"
  "calculatedHmac (js ''shpss_another'') (message example_params) = other_digest"
  by (simp_all add: example_digest_def other_digest_def message_example_params)

lemma isValid_get_request_example:
  "isValid example_env (get_request example_params supplied)
     = timingSafeEqual (from_hex supplied) (from_hex example_digest)"
  "isValid other_env (get_request example_params supplied)
     = timingSafeEqual (from_hex supplied) (from_hex other_digest)"
  by (simp_all add: isValid_get_request [where secret = "js ''shpss_secret''"]
        isValid_get_request [where secret = "js ''shpss_another''"] example_facts
        example_digest_eq)

lemma isValid_example_digest:
  "isValid example_env (get_request example_params example_digest) = Inr True"
  by (simp add: isValid_get_request_example timingSafeEqual_def)

lemma from_hex_example_digest:
  "from_hex example_digest
     = hmac_sha256 (utf8 (js ''shpss_secret'')) (utf8 (message example_params))"
  "length (from_hex example_digest) = 32"
  "length (from_hex other_digest) = 32"
  by (simp_all add: example_digest_def other_digest_def from_hex_calculatedHmac
        message_example_params length_hmac_sha256)

lemma from_hex_near_miss:
  "length (from_hex near_miss_digest) = 32"
  "from_hex near_miss_digest \<noteq> from_hex example_digest"
proof -
  show "length (from_hex near_miss_digest) = 32"
    by (simp add: near_miss_digest_def from_hex_to_hex from_hex_example_digest(2))
  obtain b bs where "from_hex example_digest = b # bs"
    using from_hex_example_digest(2) by (cases "from_hex example_digest") simp_all
  then show "from_hex near_miss_digest \<noteq> from_hex example_digest"
    by (simp add: near_miss_digest_def from_hex_to_hex)
qed

lemma isValid_near_miss:
  "isValid example_env (get_request example_params near_miss_digest) = Inr False"
  by (simp add: isValid_get_request_example timingSafeEqual_def from_hex_near_miss
        from_hex_example_digest(2))





lemma isValid_unsigned:
  "isValid e unsigned_request = Inl Buffer_from_fault
   \<or> isValid e unsigned_request = Inl createHmac_key_fault"
  by (simp add: isValid_def unsigned_request_def example_params_def split: option.splits)

lemma isValid_unsigned_example: "isValid example_env unsigned_request = Inl Buffer_from_fault"
  by (simp add: isValid_def unsigned_request_def example_params_def example_env_def)


section \<open>The claims\<close>

subsection \<open>C1: the token exchange is gated by the signature check\<close>

text \<open>
  C1, as the code has it.  The handler calls the token endpoint only on a GET request
  whose signature check succeeded: a secret is configured, an \<^verbatim>\<open>hmac\<close> parameter is
  present, and the bytes it decodes to are the HMAC-SHA256 of the canonical message under
  that secret.  Whenever the decoded bytes differ from the digest, no call is made.
\<close>

theorem token_exchange_only_after_verification:
  assumes "calls fetch req p \<noteq> []"
  shows "method' req = js ''GET'' \<and>
         (\<exists>secret hmac. SHOPIFY_CLIENT_SECRET (environment p) = Some secret
            \<and> map_of (query req) (js ''hmac'') = Some hmac
            \<and> from_hex hmac = hmac_sha256 (utf8 secret) (utf8 (message (query req))))"
  using assms by (simp add: calls_handler isValid_True_iff split: if_splits)

text \<open>The request the platform sends is such a request, and the call is made.\<close>

theorem token_exchange_only_after_verification_witness:
  "calls upstream_ok (get_request example_params example_digest) (fresh example_env) \<noteq> []
   \<and> method' (get_request example_params example_digest) = js ''GET''
   \<and> (\<exists>secret hmac. SHOPIFY_CLIENT_SECRET (environment (fresh example_env)) = Some secret
          \<and> map_of (query (get_request example_params example_digest)) (js ''hmac'') = Some hmac
          \<and> from_hex hmac
              = hmac_sha256 (utf8 secret)
                  (utf8 (message (query (get_request example_params example_digest)))))"
proof -
  have made: "calls upstream_ok (get_request example_params example_digest) (fresh example_env) \<noteq> []"
    by (simp add: calls_handler isValid_example_digest example_facts)
  from token_exchange_only_after_verification [OF made] made show ?thesis
    by simp
qed

text \<open>
  C1 as written compares the computed digest with the supplied value, and fails: the
  digest followed by one more digit is not the digest, but \<open>from_hex\<close> drops the odd last
  code unit, the check succeeds and the token endpoint is called.
\<close>

theorem longer_hmac_still_exchanges:
  "example_digest @ js ''0''
     \<noteq> calculatedHmac (js ''shpss_secret'')
         (message (query (get_request example_params (example_digest @ js ''0''))))
   \<and> calls upstream_ok (get_request example_params (example_digest @ js ''0''))
         (fresh example_env)
       = [token_request example_env (get_request example_params (example_digest @ js ''0''))]"
proof -
  have "from_hex (example_digest @ js ''0'') = from_hex example_digest"
    using from_hex_to_hex_append [of _ "js ''0''"]
    by (simp add: example_digest_def calculatedHmac_def from_hex_to_hex js_def)
  then have "isValid example_env (get_request example_params (example_digest @ js ''0'')) = Inr True"
    by (simp add: isValid_get_request_example timingSafeEqual_def)
  then show ?thesis
    by (simp add: calls_handler example_facts message_get_request example_digest_eq)
qed

subsection \<open>C2: a wrong signature of the digest's length is answered with 401\<close>

text \<open>
  C2, as the code has it.  For every GET request, with a secret configured, whose
  \<^verbatim>\<open>hmac\<close> parameter decodes to 32 bytes that are not the digest, the answer is 401 with
  the body \<^verbatim>\<open>{"error": "Invalid HMAC"}\<close>, and the token endpoint is not called.
\<close>

theorem same_length_mismatch_is_401:
  assumes "method' req = js ''GET''"
    and "SHOPIFY_CLIENT_SECRET (environment p) = Some secret"
    and "map_of (query req) (js ''hmac'') = Some hmac"
    and "length (from_hex hmac) = 32"
    and "from_hex hmac \<noteq> hmac_sha256 (utf8 secret) (utf8 (message (query req)))"
  shows "status (fst (handler fetch req p)) = 401
         \<and> payload (fst (handler fetch req p)) = Json [(js ''error'', js ''Invalid HMAC'')]
         \<and> calls fetch req p = []"
proof -
  from assms have "isValid (environment p) req = Inr False"
    by (auto simp: isValid_False_iff)
  with assms(1) show ?thesis
    by (simp add: handler_invalid calls_handler)
qed

text \<open>The digest with every byte raised by one is such a parameter.\<close>

theorem same_length_mismatch_is_401_witness:
  "method' (get_request example_params near_miss_digest) = js ''GET''
   \<and> SHOPIFY_CLIENT_SECRET (environment (fresh example_env)) = Some (js ''shpss_secret'')
   \<and> map_of (query (get_request example_params near_miss_digest)) (js ''hmac'')
       = Some near_miss_digest
   \<and> length (from_hex near_miss_digest) = 32
   \<and> from_hex near_miss_digest
       \<noteq> hmac_sha256 (utf8 (js ''shpss_secret''))
           (utf8 (message (query (get_request example_params near_miss_digest))))
   \<and> status (fst (handler upstream_ok (get_request example_params near_miss_digest)
                    (fresh example_env))) = 401
   \<and> payload (fst (handler upstream_ok (get_request example_params near_miss_digest)
                     (fresh example_env)))
       = Json [(js ''error'', js ''Invalid HMAC'')]
   \<and> calls upstream_ok (get_request example_params near_miss_digest) (fresh example_env) = []"
proof -
  let ?req = "get_request example_params near_miss_digest"
  have a: "method' ?req = js ''GET''"
    and b: "SHOPIFY_CLIENT_SECRET (environment (fresh example_env)) = Some (js ''shpss_secret'')"
    and c: "map_of (query ?req) (js ''hmac'') = Some near_miss_digest"
    by (simp_all add: example_facts hmac_get_request)
  have d: "length (from_hex near_miss_digest) = 32"
    by (rule from_hex_near_miss)
  have f: "from_hex near_miss_digest
             \<noteq> hmac_sha256 (utf8 (js ''shpss_secret'')) (utf8 (message (query ?req)))"
    using from_hex_near_miss(2) by (simp add: message_get_request from_hex_example_digest(1))
  from same_length_mismatch_is_401 [OF a b c d f, of upstream_ok] a b c d f show ?thesis
    by simp
qed

text \<open>
  C2 as written promises 401 for every supplied value that is not the digest, whatever
  its length, and fails both ways.  A value of four digits is not the digest; it decodes
  to two bytes, \<open>timingSafeEqual\<close> throws, and the answer is 500.  The digest followed by
  two letters that are no digits is not the digest either; it decodes to the digest, and
  the answer is the success page.
\<close>

theorem other_lengths_are_not_401:
  "js ''abcd''
     \<noteq> calculatedHmac (js ''shpss_secret'')
         (message (query (get_request example_params (js ''abcd''))))
   \<and> status (fst (handler upstream_ok (get_request example_params (js ''abcd''))
                    (fresh example_env))) = 500
   \<and> example_digest @ js ''zz''
       \<noteq> calculatedHmac (js ''shpss_secret'')
           (message (query (get_request example_params (example_digest @ js ''zz''))))
   \<and> status (fst (handler upstream_ok (get_request example_params (example_digest @ js ''zz''))
                    (fresh example_env))) = 200"
proof -
  have "length (calculatedHmac (js ''shpss_secret'')
                  (message (query (get_request example_params (js ''abcd''))))) = 64"
    by (rule length_calculatedHmac)
  then have short: "js ''abcd''
      \<noteq> calculatedHmac (js ''shpss_secret'')
          (message (query (get_request example_params (js ''abcd''))))"
    by auto
  have "\<exists>error. isValid example_env (get_request example_params (js ''abcd'')) = Inl error"
    by (simp add: isValid_get_request_example timingSafeEqual_def from_hex_example_digest(2)
          unhex_def js_def)
  then have short_status:
    "status (fst (handler upstream_ok (get_request example_params (js ''abcd''))
                    (fresh example_env))) = 500"
    by (auto simp: handler_fault example_facts)
  have long: "example_digest @ js ''zz''
      \<noteq> calculatedHmac (js ''shpss_secret'')
          (message (query (get_request example_params (example_digest @ js ''zz''))))"
    by (simp add: message_get_request example_digest_eq)
  have "from_hex (example_digest @ js ''zz'') = from_hex example_digest"
    using from_hex_to_hex_append [of _ "js ''zz''"]
    by (simp add: example_digest_def calculatedHmac_def from_hex_to_hex unhex_def js_def)
  then have "isValid example_env (get_request example_params (example_digest @ js ''zz''))
               = Inr True"
    by (simp add: isValid_get_request_example timingSafeEqual_def)
  then have long_status:
    "status (fst (handler upstream_ok (get_request example_params (example_digest @ js ''zz''))
                    (fresh example_env))) = 200"
    by (simp add: handler_installed [where access_token = "Some (js ''tok'')"
                                      and scope = "Some (js ''read_orders'')"]
          example_facts upstream_ok_def)
  from short short_status long long_status show ?thesis
    by simp
qed

subsection \<open>C3: the canonical message\<close>

lemma sorted_names:
  assumes "distinct (map fst q)"
  shows "sort (filter (\<lambda>key. key \<noteq> js ''signature'' \<and> key \<noteq> js ''hmac'') (map fst q))
           = sorted_list_of_set (dom (map_of q) - {js ''hmac'', js ''signature''})"
proof -
  let ?names = "filter (\<lambda>key. key \<noteq> js ''signature'' \<and> key \<noteq> js ''hmac'') (map fst q)"
  have "distinct ?names"
    using assms by simp
  then have "remdups ?names = ?names"
    by (rule distinct_remdups_id)
  then have "sort ?names = sorted_list_of_set (set ?names)"
    using sorted_list_of_set_sort_remdups [of ?names] by (simp only:)
  moreover have "set ?names = dom (map_of q) - {js ''hmac'', js ''signature''}"
    by (auto simp: dom_map_of_conv_image_fst)
  ultimately show ?thesis
    by simp
qed

text \<open>
  C3.  For every query object (a list of entries with distinct names), the message the
  handler signs is the specification's canonical message of its parameters: all of them
  but \<^verbatim>\<open>hmac\<close> and \<^verbatim>\<open>signature\<close>, names in lexicographic order of their code units,
  each \<^verbatim>\<open>name=value\<close>, joined by \<^verbatim>\<open>&\<close>.  For shop \<^verbatim>\<open>a.myshopify.com\<close>, code \<^verbatim>\<open>xyz\<close>
  and state \<^verbatim>\<open>abc\<close> it is \<^verbatim>\<open>code=xyz&shop=a.myshopify.com&state=abc\<close>.
\<close>

theorem message_is_canonical:
  assumes "distinct (map fst q)"
  shows "message q = canonical_message (map_of q)
         \<and> message [(js ''shop'', js ''a.myshopify.com''), (js ''code'', js ''xyz''),
                     (js ''state'', js ''abc'')]
             = js ''code=xyz&shop=a.myshopify.com&state=abc''"
proof
  let ?names = "sorted_list_of_set (dom (map_of q) - {js ''hmac'', js ''signature''})"
  have "interpolate (map_of q name) = (case map_of q name of None \<Rightarrow> [] | Some v \<Rightarrow> v)"
    if "name \<in> set ?names" for name
  proof -
    have "finite (dom (map_of q) - {js ''hmac'', js ''signature''})"
      by (simp add: finite_dom_map_of)
    with that have "name \<in> dom (map_of q)"
      by simp
    then show ?thesis
      by auto
  qed
  then have "map (\<lambda>key. key @ js ''='' @ interpolate (map_of q key)) ?names
           = map (\<lambda>name. name @ js ''='' @ (case map_of q name of None \<Rightarrow> [] | Some v \<Rightarrow> v))
               ?names"
    by (intro map_cong) simp_all
  then show "message q = canonical_message (map_of q)"
    by (simp only: message_def canonical_message_def sorted_names [OF assms])
  show "message [(js ''shop'', js ''a.myshopify.com''), (js ''code'', js ''xyz''),
                 (js ''state'', js ''abc'')]
          = js ''code=xyz&shop=a.myshopify.com&state=abc''"
    by (simp add: message_def js_def)
qed

text \<open>
  A query that carries both signature parameters, in another order, has the same
  canonical message.  Of the two names U+FF5E and U+1F600 the second, whose first code
  unit is the surrogate D83D, comes first.
\<close>

theorem message_is_canonical_witness:
  "distinct (map fst [(js ''state'', js ''abc''), (js ''hmac'', js ''00''),
                      (js ''shop'', js ''a.myshopify.com''), (js ''signature'', js ''ff''),
                      (js ''code'', js ''xyz'')])
   \<and> canonical_message
         (map_of [(js ''state'', js ''abc''), (js ''hmac'', js ''00''),
                  (js ''shop'', js ''a.myshopify.com''), (js ''signature'', js ''ff''),
                  (js ''code'', js ''xyz'')])
       = js ''code=xyz&shop=a.myshopify.com&state=abc''
   \<and> distinct (map fst [([0xFF5E], js ''1''), ([0xD83D, 0xDE00], js ''2'')])
   \<and> canonical_message (map_of [([0xFF5E], js ''1''), ([0xD83D, 0xDE00], js ''2'')])
       = [0xD83D, 0xDE00] @ js ''=2&'' @ [0xFF5E] @ js ''=1''"
proof -
  let ?q = "[(js ''state'', js ''abc''), (js ''hmac'', js ''00''),
             (js ''shop'', js ''a.myshopify.com''), (js ''signature'', js ''ff''),
             (js ''code'', js ''xyz'')]"
  let ?r = "[([0xFF5E], js ''1''), ([0xD83D, 0xDE00 :: unit16], js ''2'')]"
  have d: "distinct (map fst ?q)"
    by simp
  have d': "distinct (map fst ?r)"
    by simp
  have m: "message ?q = js ''code=xyz&shop=a.myshopify.com&state=abc''"
    by (simp add: message_def js_def)
  have m': "message ?r = [0xD83D, 0xDE00] @ js ''=2&'' @ [0xFF5E] @ js ''=1''"
    by (simp add: message_def js_def)
  from message_is_canonical [OF d] message_is_canonical [OF d'] d d' m m' show ?thesis
    by (simp only:) simp
qed

subsection \<open>C4: what each kind of failure answers\<close>

text \<open>
  C4, as the code has it.  Every failure has its status: 405 for a method that is not
  GET, 401 for a wrong signature, 500 for a failed token exchange and for any other
  error.  The two 500 answers carry the rendered error page, and the page shows the
  message of the error that the \<^verbatim>\<open>try\<close> block threw; the 405 and 401 answers carry
  the JSON objects \<^verbatim>\<open>{"error": "Method not allowed"}\<close> and \<^verbatim>\<open>{"error": "Invalid HMAC"}\<close>.
\<close>

theorem failure_responses:
  assumes "failure_of fetch req p = Some f"
  shows "status (fst (handler fetch req p)) = status_of f
         \<and> (case f of
               MethodNotAllowed \<Rightarrow>
                 payload (fst (handler fetch req p))
                   = Json [(js ''error'', js ''Method not allowed'')]
             | InvalidSignature \<Rightarrow>
                 payload (fst (handler fetch req p)) = Json [(js ''error'', js ''Invalid HMAC'')]
             | TokenExchangeFailed \<Rightarrow>
                 html_document (fst (handler fetch req p))
                 \<and> (\<exists>tokenResponse.
                       fetch (token_request (environment p) req) = FetchResolved tokenResponse
                       \<and> caught fetch req p
                           = Some (Thrown Error
                                     (js ''Token exchange failed: '' @ statusText tokenResponse))
                       \<and> payload (fst (handler fetch req p))
                           = Sent (errorHTML
                                     (js ''Token exchange failed: '' @ statusText tokenResponse)))
             | UnexpectedFailure \<Rightarrow>
                 html_document (fst (handler fetch req p))
                 \<and> (\<exists>error. caught fetch req p = Some error
                       \<and> payload (fst (handler fetch req p))
                           = Sent (errorHTML (message_of error))
                       \<and> sublist (message_of error) (errorHTML (message_of error))))"
proof (rule handler_paths [where req = req and e = "environment p" and fetch = fetch])
  assume "method' req \<noteq> js ''GET''"
  with assms show ?thesis
    by (auto simp: failure_of_def handler_not_GET)
next
  fix error assume "method' req = js ''GET''" "isValid (environment p) req = Inl error"
  with assms show ?thesis
    by (auto simp: failure_of_def handler_fault html_document_error caught_cases
          sublist_errorHTML)
next
  assume "method' req = js ''GET''" "isValid (environment p) req = Inr False"
  with assms show ?thesis
    by (auto simp: failure_of_def handler_invalid)
next
  fix error assume "method' req = js ''GET''" "isValid (environment p) req = Inr True"
    "fetch (token_request (environment p) req) = FetchRejected error"
  with assms show ?thesis
    by (auto simp: failure_of_def handler_fetch_rejected html_document_error caught_cases
          sublist_errorHTML)
next
  fix tokenResponse assume "method' req = js ''GET''" "isValid (environment p) req = Inr True"
    "fetch (token_request (environment p) req) = FetchResolved tokenResponse"
    "\<not> ok tokenResponse"
  with assms show ?thesis
    by (auto simp: failure_of_def handler_not_ok html_document_error caught_cases)
next
  fix tokenResponse error
  assume "method' req = js ''GET''" "isValid (environment p) req = Inr True"
    "fetch (token_request (environment p) req) = FetchResolved tokenResponse" "ok tokenResponse"
    "json tokenResponse = JsonRejected error"
  with assms show ?thesis
    by (auto simp: failure_of_def handler_json_rejected html_document_error caught_cases
          sublist_errorHTML)
next
  fix tokenResponse assume "method' req = js ''GET''" "isValid (environment p) req = Inr True"
    "fetch (token_request (environment p) req) = FetchResolved tokenResponse" "ok tokenResponse"
    "json tokenResponse = JsonNull"
  with assms show ?thesis
    by (auto simp: failure_of_def handler_json_null html_document_error caught_cases
          sublist_errorHTML)
next
  fix tokenResponse access_token scope
  assume "method' req = js ''GET''" "isValid (environment p) req = Inr True"
    "fetch (token_request (environment p) req) = FetchResolved tokenResponse" "ok tokenResponse"
    "json tokenResponse = JsonObject access_token scope"
  with assms show ?thesis
    by (simp add: failure_of_def)
qed

text \<open>
  One request of each kind.  The last has no \<^verbatim>\<open>hmac\<close>: the error caught is the one
  \<^verbatim>\<open>Buffer.from\<close> throws, and its message is what the page shows.
\<close>

theorem failure_responses_witness:
  "failure_of upstream_ok post_request (fresh example_env) = Some MethodNotAllowed
   \<and> status (fst (handler upstream_ok post_request (fresh example_env))) = 405
   \<and> payload (fst (handler upstream_ok post_request (fresh example_env)))
       = Json [(js ''error'', js ''Method not allowed'')]
   \<and> failure_of upstream_ok (get_request example_params near_miss_digest) (fresh example_env)
       = Some InvalidSignature
   \<and> status (fst (handler upstream_ok (get_request example_params near_miss_digest)
                    (fresh example_env))) = 401
   \<and> failure_of (upstream_refuses (js ''Forbidden'')) (get_request example_params example_digest)
         (fresh example_env)
       = Some TokenExchangeFailed
   \<and> status (fst (handler (upstream_refuses (js ''Forbidden''))
                    (get_request example_params example_digest) (fresh example_env))) = 500
   \<and> html_document (fst (handler (upstream_refuses (js ''Forbidden''))
                           (get_request example_params example_digest) (fresh example_env)))
   \<and> failure_of upstream_ok unsigned_request (fresh example_env) = Some UnexpectedFailure
   \<and> status (fst (handler upstream_ok unsigned_request (fresh example_env))) = 500
   \<and> html_document (fst (handler upstream_ok unsigned_request (fresh example_env)))
   \<and> caught upstream_ok unsigned_request (fresh example_env) = Some Buffer_from_fault
   \<and> payload (fst (handler upstream_ok unsigned_request (fresh example_env)))
       = Sent (errorHTML (message_of Buffer_from_fault))"
proof -
  have a: "failure_of upstream_ok post_request (fresh example_env) = Some MethodNotAllowed"
    by (simp add: failure_of_def post_request_def)
  have b: "failure_of upstream_ok (get_request example_params near_miss_digest)
             (fresh example_env) = Some InvalidSignature"
    by (simp add: failure_of_def example_facts isValid_near_miss)
  have c: "failure_of (upstream_refuses (js ''Forbidden''))
             (get_request example_params example_digest) (fresh example_env)
           = Some TokenExchangeFailed"
    by (simp add: failure_of_def example_facts isValid_example_digest upstream_refuses_def)
  have d: "failure_of upstream_ok unsigned_request (fresh example_env) = Some UnexpectedFailure"
    by (simp add: failure_of_def unsigned_request_def example_facts [unfolded unsigned_request_def]
          isValid_unsigned_example [unfolded unsigned_request_def])
  have g: "caught upstream_ok unsigned_request (fresh example_env) = Some Buffer_from_fault"
    by (simp add: caught_cases unsigned_request_def example_facts
          isValid_unsigned_example [unfolded unsigned_request_def])
  from failure_responses [OF a] failure_responses [OF b] failure_responses [OF c]
    failure_responses [OF d] a b c d g
  show ?thesis
    by simp
qed

text \<open>
  C4 as written gives every failure a rendered HTML document, and fails: the answer to a
  POST is a JSON object, sent without the \<^verbatim>\<open>text/html\<close> header.
\<close>

theorem method_not_allowed_is_not_html:
  "failure_of upstream_ok post_request (fresh example_env) = Some MethodNotAllowed
   \<and> \<not> html_document (fst (handler upstream_ok post_request (fresh example_env)))"
  by (simp add: failure_of_def post_request_def handler_not_GET html_document_def)

subsection \<open>C5: the success page\<close>

text \<open>
  C5, as the code has it.  On a successful token exchange (an answer with status 200)
  the success page is the template with the shop parameter and the granted scope put in
  as they are, code unit for code unit: the shop in the title and in the store line, the
  scope in the permissions line.
\<close>

theorem success_page_embeds_verbatim:
  assumes "status (fst (handler fetch req p)) = 200"
  shows "\<exists>tokenResponse access_token scope.
           fetch (token_request (environment p) req) = FetchResolved tokenResponse
           \<and> json tokenResponse = JsonObject access_token scope
           \<and> payload (fst (handler fetch req p))
               = Sent (success_part1 @ interpolate (map_of (query req) (js ''shop''))
                       @ success_part2 @ interpolate (map_of (query req) (js ''shop''))
                       @ success_part3 @ interpolate scope @ success_part4)"
proof (rule handler_paths [where req = req and e = "environment p" and fetch = fetch])
  fix tokenResponse access_token scope
  assume "method' req = js ''GET''" "isValid (environment p) req = Inr True"
    "fetch (token_request (environment p) req) = FetchResolved tokenResponse" "ok tokenResponse"
    "json tokenResponse = JsonObject access_token scope"
  then show ?thesis
    by (simp add: handler_installed successHTML_def)
qed (use assms in \<open>simp_all add: handler_cases\<close>)

theorem success_page_embeds_verbatim_witness:
  "status (fst (handler upstream_ok (get_request example_params example_digest)
                  (fresh example_env))) = 200
   \<and> (\<exists>tokenResponse access_token scope.
         upstream_ok (token_request (environment (fresh example_env))
                        (get_request example_params example_digest))
           = FetchResolved tokenResponse
         \<and> json tokenResponse = JsonObject access_token scope
         \<and> payload (fst (handler upstream_ok (get_request example_params example_digest)
                           (fresh example_env)))
             = Sent (success_part1 @ js ''a.myshopify.com'' @ success_part2
                     @ js ''a.myshopify.com'' @ success_part3 @ interpolate scope
                     @ success_part4))"
proof -
  have granted:
    "status (fst (handler upstream_ok (get_request example_params example_digest)
                    (fresh example_env))) = 200"
    by (simp add: handler_installed [where access_token = "Some (js ''tok'')"
                                      and scope = "Some (js ''read_orders'')"]
          example_facts isValid_example_digest upstream_ok_def)
  have shop: "interpolate (map_of (query (get_request example_params example_digest)) (js ''shop''))
                = js ''a.myshopify.com''"
    by (simp add: shop_get_request example_params_def)
  from success_page_embeds_verbatim [OF granted] granted show ?thesis
    by (simp only: shop)
qed

text \<open>
  C5 as written has the interpolated values escaped, and fails: a signed request whose
  shop is a \<^verbatim>\<open>script\<close> element, granted a scope with markup in it, gets a page with
  both in it unchanged.
\<close>

theorem markup_is_interpolated_raw:
  "payload (fst (handler upstream_markup
      (get_request script_params (calculatedHmac (js ''shpss_secret'') (message script_params)))
      (fresh example_env)))
     = Sent (success_part1 @ js ''<script>alert(1)</script>'' @ success_part2
             @ js ''<script>alert(1)</script>'' @ success_part3 @ js ''<b>read_orders</b>''
             @ success_part4)"
proof -
  have "isValid example_env
          (get_request script_params
             (calculatedHmac (js ''shpss_secret'') (message script_params)))
        = Inr True"
    by (rule isValid_signed) (simp_all add: script_params_def example_env_def)
  then show ?thesis
    by (simp add: handler_installed [where access_token = "Some (js ''tok'')"
                                      and scope = "Some (js ''<b>read_orders</b>'')"]
          example_facts upstream_markup_def successHTML_def shop_get_request)
       (simp add: script_params_def)
qed

subsection \<open>C6: the method gate\<close>

text \<open>
  C6.  For every request whose method is not GET the status is 405 and nothing else
  happens: no call to the token endpoint, no console line, the process left as it was,
  and an answer that is the same whatever the configuration, the query and the token
  endpoint are, so that no signature was computed for it.
\<close>

theorem non_GET_is_405:
  assumes "method' req \<noteq> js ''GET''"
  shows "status (fst (handler fetch req p)) = 405
         \<and> calls fetch req p = []
         \<and> logged fetch req p = []
         \<and> handler fetch req p
             = (\<lparr>status = 405, headers = [],
                 payload = Json [(js ''error'', js ''Method not allowed'')]\<rparr>, p)"
  using assms by (simp add: handler_not_GET calls_def logged_def)

theorem non_GET_is_405_witness:
  "method' post_request \<noteq> js ''GET''
   \<and> status (fst (handler upstream_ok post_request (fresh example_env))) = 405
   \<and> calls upstream_ok post_request (fresh example_env) = []
   \<and> logged upstream_ok post_request (fresh example_env) = []
   \<and> handler upstream_ok post_request (fresh example_env)
       = (\<lparr>status = 405, headers = [],
           payload = Json [(js ''error'', js ''Method not allowed'')]\<rparr>, fresh example_env)"
proof -
  have m: "method' post_request \<noteq> js ''GET''"
    by (simp add: post_request_def)
  from non_GET_is_405 [OF m] m show ?thesis
    by blast
qed

subsection \<open>C7: a refused token exchange\<close>

text \<open>
  C7.  Whenever the call to the token endpoint comes back with a status that is not a
  success, the answer is 500 with the error page; the page shows the message
  \<^verbatim>\<open>Token exchange failed:\<close> followed by the upstream status text; it is not the success
  page; the only console line written is the error line, and the process is left with
  that line and the request sent added, and nothing else changed.
\<close>

theorem failed_exchange_is_500:
  assumes "call \<in> set (calls fetch req p)"
    and "fetch call = FetchResolved tokenResponse"
    and "\<not> ok tokenResponse"
  shows "status (fst (handler fetch req p)) = 500
         \<and> payload (fst (handler fetch req p))
             = Sent (errorHTML (js ''Token exchange failed: '' @ statusText tokenResponse))
         \<and> sublist (js ''Token exchange failed: '' @ statusText tokenResponse)
               (errorHTML (js ''Token exchange failed: '' @ statusText tokenResponse))
         \<and> sublist (statusText tokenResponse)
               (errorHTML (js ''Token exchange failed: '' @ statusText tokenResponse))
         \<and> (\<forall>shop scope. payload (fst (handler fetch req p)) \<noteq> Sent (successHTML shop scope))
         \<and> logged fetch req p
             = [ConsoleError (js ''OAuth callback error:'')
                  (Thrown Error (js ''Token exchange failed: '' @ statusText tokenResponse))]
         \<and> snd (handler fetch req p)
             = \<lparr>environment = environment p,
                console = console p
                  @ [ConsoleError (js ''OAuth callback error:'')
                       (Thrown Error (js ''Token exchange failed: '' @ statusText tokenResponse))],
                network = network p @ [call]\<rparr>"
proof -
  from assms(1) have get: "method' req = js ''GET''"
    and valid: "isValid (environment p) req = Inr True"
    and call: "call = token_request (environment p) req"
    by (simp_all add: calls_handler split: if_splits)
  from assms(2) call
  have "fetch (token_request (environment p) req) = FetchResolved tokenResponse"
    by simp
  note run = handler_not_ok [where fetch = fetch, OF get valid this assms(3)]
  show ?thesis
  proof (intro conjI)
    show "status (fst (handler fetch req p)) = 500"
      by (simp add: run)
    show "payload (fst (handler fetch req p))
            = Sent (errorHTML (js ''Token exchange failed: '' @ statusText tokenResponse))"
      by (simp add: run)
    show "sublist (js ''Token exchange failed: '' @ statusText tokenResponse)
            (errorHTML (js ''Token exchange failed: '' @ statusText tokenResponse))"
      by (rule sublist_errorHTML)
    show "sublist (statusText tokenResponse)
            (errorHTML (js ''Token exchange failed: '' @ statusText tokenResponse))"
      by (rule sublist_errorHTML_suffix)
    show "\<forall>shop scope. payload (fst (handler fetch req p)) \<noteq> Sent (successHTML shop scope)"
      by (simp add: run errorHTML_not_successHTML)
    show "logged fetch req p
            = [ConsoleError (js ''OAuth callback error:'')
                 (Thrown Error (js ''Token exchange failed: '' @ statusText tokenResponse))]"
      by (simp add: logged_def run)
    show "snd (handler fetch req p)
            = \<lparr>environment = environment p,
               console = console p
                 @ [ConsoleError (js ''OAuth callback error:'')
                      (Thrown Error (js ''Token exchange failed: '' @ statusText tokenResponse))],
               network = network p @ [call]\<rparr>"
      by (simp add: run call)
  qed
qed

theorem failed_exchange_is_500_witness:
  "token_request example_env (get_request example_params example_digest)
     \<in> set (calls (upstream_refuses (js ''Forbidden''))
                (get_request example_params example_digest) (fresh example_env))
   \<and> upstream_refuses (js ''Forbidden'')
         (token_request example_env (get_request example_params example_digest))
       = FetchResolved \<lparr>ok = False, statusText = js ''Forbidden'', json = JsonNull\<rparr>
   \<and> status (fst (handler (upstream_refuses (js ''Forbidden''))
                    (get_request example_params example_digest) (fresh example_env))) = 500
   \<and> payload (fst (handler (upstream_refuses (js ''Forbidden''))
                     (get_request example_params example_digest) (fresh example_env)))
       = Sent (errorHTML (js ''Token exchange failed: '' @ js ''Forbidden''))"
proof -
  let ?req = "get_request example_params example_digest"
  let ?tr = "\<lparr>ok = False, statusText = js ''Forbidden'', json = JsonNull\<rparr>"
  have a: "token_request example_env ?req
             \<in> set (calls (upstream_refuses (js ''Forbidden'')) ?req (fresh example_env))"
    by (simp add: calls_handler isValid_example_digest example_facts)
  have b: "upstream_refuses (js ''Forbidden'') (token_request example_env ?req) = FetchResolved ?tr"
    by (simp add: upstream_refuses_def)
  have c: "\<not> ok ?tr"
    by simp
  from failed_exchange_is_500 [OF a b c] a b show ?thesis
    by simp
qed

subsection \<open>C8: the client secret and the response\<close>




subsection \<open>C9: no state between invocations\<close>

lemma handler_reads_environment_only:
  assumes "environment p1 = environment p2"
    and "fetch1 (token_request (environment p1) req) = fetch2 (token_request (environment p2) req)"
  shows "fst (handler fetch1 req p1) = fst (handler fetch2 req p2)"
    and "calls fetch1 req p1 = calls fetch2 req p2"
    and "logged fetch1 req p1 = logged fetch2 req p2"
proof -
  have "fst (handler fetch1 req p1) = fst (handler fetch2 req p2)
        \<and> calls fetch1 req p1 = calls fetch2 req p2
        \<and> logged fetch1 req p1 = logged fetch2 req p2"
  proof (rule handler_paths [where req = req and e = "environment p1" and fetch = fetch1])
    assume "method' req \<noteq> js ''GET''"
    then show ?thesis
      by (simp add: handler_not_GET calls_def logged_def)
  next
    fix error
    assume get: "method' req = js ''GET''" and v1: "isValid (environment p1) req = Inl error"
    with assms have v2: "isValid (environment p2) req = Inl error"
      by simp
    show ?thesis
      by (simp add: calls_def logged_def handler_fault [OF get v1] handler_fault [OF get v2])
  next
    assume get: "method' req = js ''GET''" and v1: "isValid (environment p1) req = Inr False"
    with assms have v2: "isValid (environment p2) req = Inr False"
      by simp
    show ?thesis
      by (simp add: calls_def logged_def handler_invalid [OF get v1] handler_invalid [OF get v2])
  next
    fix error
    assume get: "method' req = js ''GET''" and v1: "isValid (environment p1) req = Inr True"
      and f1: "fetch1 (token_request (environment p1) req) = FetchRejected error"
    with assms have v2: "isValid (environment p2) req = Inr True"
      and f2: "fetch2 (token_request (environment p2) req) = FetchRejected error"
      by simp_all
    show ?thesis
      by (simp add: calls_def logged_def assms(1)
            handler_fetch_rejected [where fetch = fetch1, OF get v1 f1]
            handler_fetch_rejected [where fetch = fetch2, OF get v2 f2])
  next
    fix tokenResponse
    assume get: "method' req = js ''GET''" and v1: "isValid (environment p1) req = Inr True"
      and f1: "fetch1 (token_request (environment p1) req) = FetchResolved tokenResponse"
      and no: "\<not> ok tokenResponse"
    with assms have v2: "isValid (environment p2) req = Inr True"
      and f2: "fetch2 (token_request (environment p2) req) = FetchResolved tokenResponse"
      by simp_all
    show ?thesis
      by (simp add: calls_def logged_def assms(1)
            handler_not_ok [where fetch = fetch1, OF get v1 f1 no]
            handler_not_ok [where fetch = fetch2, OF get v2 f2 no])
  next
    fix tokenResponse error
    assume get: "method' req = js ''GET''" and v1: "isValid (environment p1) req = Inr True"
      and f1: "fetch1 (token_request (environment p1) req) = FetchResolved tokenResponse"
      and yes: "ok tokenResponse" and j: "json tokenResponse = JsonRejected error"
    with assms have v2: "isValid (environment p2) req = Inr True"
      and f2: "fetch2 (token_request (environment p2) req) = FetchResolved tokenResponse"
      by simp_all
    show ?thesis
      by (simp add: calls_def logged_def assms(1)
            handler_json_rejected [where fetch = fetch1, OF get v1 f1 yes j]
            handler_json_rejected [where fetch = fetch2, OF get v2 f2 yes j])
  next
    fix tokenResponse
    assume get: "method' req = js ''GET''" and v1: "isValid (environment p1) req = Inr True"
      and f1: "fetch1 (token_request (environment p1) req) = FetchResolved tokenResponse"
      and yes: "ok tokenResponse" and j: "json tokenResponse = JsonNull"
    with assms have v2: "isValid (environment p2) req = Inr True"
      and f2: "fetch2 (token_request (environment p2) req) = FetchResolved tokenResponse"
      by simp_all
    show ?thesis
      by (simp add: calls_def logged_def assms(1)
            handler_json_null [where fetch = fetch1, OF get v1 f1 yes j]
            handler_json_null [where fetch = fetch2, OF get v2 f2 yes j])
  next
    fix tokenResponse access_token scope
    assume get: "method' req = js ''GET''" and v1: "isValid (environment p1) req = Inr True"
      and f1: "fetch1 (token_request (environment p1) req) = FetchResolved tokenResponse"
      and yes: "ok tokenResponse" and j: "json tokenResponse = JsonObject access_token scope"
    with assms have v2: "isValid (environment p2) req = Inr True"
      and f2: "fetch2 (token_request (environment p2) req) = FetchResolved tokenResponse"
      by simp_all
    show ?thesis
      by (simp add: calls_def logged_def assms(1)
            handler_installed [where fetch = fetch1, OF get v1 f1 yes j]
            handler_installed [where fetch = fetch2, OF get v2 f2 yes j])
  qed
  then show "fst (handler fetch1 req p1) = fst (handler fetch2 req p2)"
    and "calls fetch1 req p1 = calls fetch2 req p2"
    and "logged fetch1 req p1 = logged fetch2 req p2"
    by simp_all
qed

lemma serve_responses:
  "fst (serve fetch reqs p) = map (\<lambda>req. fst (handler fetch req (fresh (environment p)))) reqs"
proof (induction reqs arbitrary: p)
  case Nil
  then show ?case
    by simp
next
  case (Cons req reqs)
  have "fst (handler fetch req p) = fst (handler fetch req (fresh (environment p)))"
    by (rule handler_reads_environment_only) (simp_all add: fresh_def)
  moreover have "environment (snd (handler fetch req p)) = environment p"
    by (rule environment_handler)
  ultimately show ?case
    using Cons.IH [of "snd (handler fetch req p)"] by (simp add: split_beta)
qed

text \<open>
  C9.  The handler is deterministic and carries no state from one invocation to the
  next.  Of the process it runs in, an invocation reads the environment and nothing
  else, and it leaves the environment as it was: two runs on the same request, in
  processes with the same environment and whatever consoles and networks, against token
  endpoints that answer this request's call alike, give the same response, send the same
  requests and write the same lines.  So, in a process that serves any sequence of
  requests, each response is the one a process that has served nothing would give, and a
  request that is replayed gets the same status and the same body each time.
\<close>

theorem invocations_share_no_state:
  assumes "environment p1 = environment p2"
    and "fetch1 (token_request (environment p1) req) = fetch2 (token_request (environment p2) req)"
  shows "fst (handler fetch1 req p1) = fst (handler fetch2 req p2)
         \<and> calls fetch1 req p1 = calls fetch2 req p2
         \<and> logged fetch1 req p1 = logged fetch2 req p2
         \<and> environment (snd (handler fetch1 req p1)) = environment p1
         \<and> fst (serve fetch1 reqs p1)
             = map (\<lambda>req. fst (handler fetch1 req (fresh (environment p1)))) reqs"
  using handler_reads_environment_only [where ?fetch1.0 = fetch1 and ?fetch2.0 = fetch2, OF assms]
    environment_handler [of fetch1 req p1] serve_responses [of fetch1 reqs p1]
  by simp

text \<open>
  The signed request in a process that has served nothing and in one that has served
  before, against two endpoints that differ away from the example shop; and the signed
  request served, then a POST, then the signed request again.
\<close>

theorem invocations_share_no_state_witness:
  "environment (fresh example_env) = environment used_process
   \<and> upstream_ok (token_request (environment (fresh example_env))
                    (get_request example_params example_digest))
       = upstream_partial (token_request (environment used_process)
                             (get_request example_params example_digest))
   \<and> console used_process \<noteq> console (fresh example_env)
   \<and> fst (handler upstream_ok (get_request example_params example_digest) (fresh example_env))
       = fst (handler upstream_partial (get_request example_params example_digest) used_process)
   \<and> status (fst (handler upstream_partial (get_request example_params example_digest)
                    used_process)) = 200
   \<and> fst (serve upstream_ok
             [get_request example_params example_digest, post_request,
              get_request example_params example_digest]
             (fresh example_env))
       = [fst (handler upstream_ok (get_request example_params example_digest)
                 (fresh example_env)),
          fst (handler upstream_ok post_request (fresh example_env)),
          fst (handler upstream_ok (get_request example_params example_digest)
                 (fresh example_env))]"
proof -
  let ?signed = "get_request example_params example_digest"
  have a: "environment (fresh example_env) = environment used_process"
    by (simp add: example_facts)
  have url: "fetch_url (token_request example_env ?signed)
               = js ''https://a.myshopify.com/admin/oauth/access_token''"
    by (simp add: token_request_def shop_get_request example_params_def js_append [symmetric])
  have b: "upstream_ok (token_request (environment (fresh example_env)) ?signed)
             = upstream_partial (token_request (environment used_process) ?signed)"
    by (simp add: example_facts upstream_partial_def url)
  have c: "console used_process \<noteq> console (fresh example_env)"
    by (simp add: used_process_def fresh_def)
  have granted: "status (fst (handler upstream_ok ?signed (fresh example_env))) = 200"
    by (simp add: handler_installed [where access_token = "Some (js ''tok'')"
                                      and scope = "Some (js ''read_orders'')"]
          example_facts isValid_example_digest upstream_ok_def)
  from invocations_share_no_state [where ?fetch1.0 = upstream_ok and ?fetch2.0 = upstream_partial
      and reqs = "[?signed, post_request, ?signed]", OF a b] a b c granted
  show ?thesis
    by (simp add: example_facts)
qed

subsection \<open>C10: a missing or misfit signature\<close>

text \<open>
  C10.  For every GET request without an \<^verbatim>\<open>hmac\<close> parameter, or with one that decodes
  to a number of bytes other than the digest's 32, the handler answers through the
  \<^verbatim>\<open>catch\<close> clause: status 500, never 401, the error page, and no call to the token
  endpoint.
\<close>

theorem missing_or_misfit_hmac_is_500:
  assumes "method' req = js ''GET''"
    and "map_of (query req) (js ''hmac'') = None
         \<or> (\<exists>hmac. map_of (query req) (js ''hmac'') = Some hmac \<and> length (from_hex hmac) \<noteq> 32)"
  shows "status (fst (handler fetch req p)) = 500
         \<and> status (fst (handler fetch req p)) \<noteq> 401
         \<and> (\<exists>error. caught fetch req p = Some error
               \<and> payload (fst (handler fetch req p)) = Sent (errorHTML (message_of error)))
         \<and> html_document (fst (handler fetch req p))
         \<and> calls fetch req p = []"
proof -
  from assms(2) obtain error where fault: "isValid (environment p) req = Inl error"
    using isValid_no_hmac isValid_wrong_length by blast
  with assms(1) have "caught fetch req p = Some error"
    by (simp add: caught_cases)
  with handler_fault [OF assms(1) fault] assms(1) fault show ?thesis
    by (auto simp: html_document_error calls_handler)
qed

text \<open>
  A request without the parameter, one whose parameter is four digits, and one whose
  parameter is the digest followed by two code units U+0130, whose low bytes are those
  of the digit 0: it decodes to 33 bytes.
\<close>

theorem missing_or_misfit_hmac_is_500_witness:
  "method' unsigned_request = js ''GET''
   \<and> map_of (query unsigned_request) (js ''hmac'') = None
   \<and> status (fst (handler upstream_ok unsigned_request (fresh example_env))) = 500
   \<and> calls upstream_ok unsigned_request (fresh example_env) = []
   \<and> method' (get_request example_params (js ''abcd'')) = js ''GET''
   \<and> map_of (query (get_request example_params (js ''abcd''))) (js ''hmac'') = Some (js ''abcd'')
   \<and> length (from_hex (js ''abcd'')) \<noteq> 32
   \<and> status (fst (handler upstream_ok (get_request example_params (js ''abcd''))
                    (fresh example_env))) = 500
   \<and> calls upstream_ok (get_request example_params (js ''abcd'')) (fresh example_env) = []
   \<and> length (from_hex (example_digest @ [0x0130, 0x0130])) \<noteq> 32
   \<and> status (fst (handler upstream_ok
                    (get_request example_params (example_digest @ [0x0130, 0x0130]))
                    (fresh example_env))) = 500"
proof -
  let ?long = "example_digest @ [0x0130, 0x0130]"
  have a: "method' unsigned_request = js ''GET''"
    and b: "map_of (query unsigned_request) (js ''hmac'') = None"
    by (simp_all add: unsigned_request_def example_params_def)
  have c: "method' (get_request example_params supplied) = js ''GET''" for supplied
    by (simp add: example_facts)
  have d: "map_of (query (get_request example_params supplied)) (js ''hmac'') = Some supplied"
    for supplied
    by (simp add: example_facts hmac_get_request)
  have f: "length (from_hex (js ''abcd'')) \<noteq> 32"
    by (simp add: unhex_def js_def)
  have "from_hex ?long = from_hex example_digest @ [0]"
    using from_hex_to_hex_append [of _ "[0x0130, 0x0130]"]
    by (simp add: example_digest_def calculatedHmac_def from_hex_to_hex unhex_def)
  then have f': "length (from_hex ?long) \<noteq> 32"
    by (simp add: from_hex_example_digest(2))
  from d f have g: "map_of (query (get_request example_params (js ''abcd''))) (js ''hmac'') = None
      \<or> (\<exists>hmac. map_of (query (get_request example_params (js ''abcd''))) (js ''hmac'') = Some hmac
             \<and> length (from_hex hmac) \<noteq> 32)"
    by simp
  from d f' have g': "map_of (query (get_request example_params ?long)) (js ''hmac'') = None
      \<or> (\<exists>hmac. map_of (query (get_request example_params ?long)) (js ''hmac'') = Some hmac
             \<and> length (from_hex hmac) \<noteq> 32)"
    by simp
  from missing_or_misfit_hmac_is_500 [OF a disjI1 [OF b], of upstream_ok "fresh example_env"]
    missing_or_misfit_hmac_is_500 [OF c g, of upstream_ok "fresh example_env"]
    missing_or_misfit_hmac_is_500 [OF c g', of upstream_ok "fresh example_env"]
    a b c d f f'
  show ?thesis
    by simp
qed

end
